theory Spec2Isabelle
  imports Complex_Main
begin

section \<open>Tensors\<close>

text \<open>
  The module \<^verbatim>\<open>examples/pytorch/gcn/gcn_spmv.py\<close> works on two-dimensional tensors of
  the tensor library. A tensor is modelled by its number of columns and the list of its
  rows; an entry is the real number that the floating-point entry denotes. A
  one-dimensional tensor (the bias) is a list of entries.
\<close>

datatype error =
  RuntimeError | ValueError | TypeError | KeyError | DGLError | ZeroDivisionError

record tensor =
  ncols :: nat
  rows :: "real list list"

definition nrows :: "tensor \<Rightarrow> nat" where
  "nrows t = length (rows t)"

definition wf_tensor :: "tensor \<Rightarrow> bool" where
  "wf_tensor t = list_all (\<lambda>r. length r = ncols t) (rows t)"

definition dot :: "real list \<Rightarrow> real list \<Rightarrow> real" where
  "dot x y = sum_list (map2 (*) x y)"

definition column :: "tensor \<Rightarrow> nat \<Rightarrow> real list" where
  "column t j = map (\<lambda>r. r ! j) (rows t)"

text \<open>\<^verbatim>\<open>torch.mm(a, b)\<close>: matrix product; the inner dimensions must agree.\<close>

definition torch_mm :: "tensor \<Rightarrow> tensor \<Rightarrow> error + tensor" where
  "torch_mm a b =
     (if ncols a \<noteq> nrows b then Inl RuntimeError
      else Inr \<lparr>ncols = ncols b,
                rows = map (\<lambda>r. map (\<lambda>j. dot r (column b j)) [0..<ncols b]) (rows a)\<rparr>)"

text \<open>
  Broadcasting of the elementwise operators \<^verbatim>\<open>*\<close> and \<^verbatim>\<open>+\<close>: two sizes of a
  dimension are compatible when they are equal or one of them is 1; a dimension of size 1
  is read at index 0 whatever the index.
\<close>

definition broadcast_dim :: "nat \<Rightarrow> nat \<Rightarrow> nat option" where
  "broadcast_dim a b =
     (if a = b then Some a else if a = 1 then Some b else if b = 1 then Some a else None)"

definition bget :: "tensor \<Rightarrow> nat \<Rightarrow> nat \<Rightarrow> real" where
  "bget t i j = rows t ! (if nrows t = 1 then 0 else i) ! (if ncols t = 1 then 0 else j)"

definition elementwise :: "(real \<Rightarrow> real \<Rightarrow> real) \<Rightarrow> tensor \<Rightarrow> tensor \<Rightarrow> error + tensor" where
  "elementwise f a b =
     (case broadcast_dim (nrows a) (nrows b) of
        None \<Rightarrow> Inl RuntimeError
      | Some n \<Rightarrow>
          (case broadcast_dim (ncols a) (ncols b) of
             None \<Rightarrow> Inl RuntimeError
           | Some c \<Rightarrow>
               Inr \<lparr>ncols = c,
                    rows = map (\<lambda>i. map (\<lambda>j. f (bget a i j) (bget b i j)) [0..<c]) [0..<n]\<rparr>))"

definition tensor_mul :: "tensor \<Rightarrow> tensor \<Rightarrow> error + tensor" where
  "tensor_mul a b = elementwise (*) a b"

definition tensor_add :: "tensor \<Rightarrow> tensor \<Rightarrow> error + tensor" where
  "tensor_add a b = elementwise (+) a b"

text \<open>A one-dimensional tensor of \<open>n\<close> entries broadcasts like a tensor of shape \<open>(1, n)\<close>.\<close>

definition as_row :: "real list \<Rightarrow> tensor" where
  "as_row b = \<lparr>ncols = length b, rows = [b]\<rparr>"

section \<open>Floating-point rounding\<close>

text \<open>
  Python's \<^verbatim>\<open>float\<close> is the IEEE binary64 format and the parameters of a layer are
  binary32 tensors. \<open>fl p emin x\<close> rounds the real \<open>x\<close> to the nearest number with
  \<open>p\<close> significant bits and least exponent \<open>emin\<close>, ties to the even significand
  (gradual underflow included; overflow does not arise for the numbers of this module,
  which have magnitude at most 1 or are tensor sizes).
\<close>

definition pow2 :: "int \<Rightarrow> real" where
  "pow2 e = (if 0 \<le> e then 2 ^ nat e else 1 / 2 ^ nat (- e))"

definition round_half_even :: "real \<Rightarrow> int" where
  "round_half_even x =
     (let f = \<lfloor>x\<rfloor> in
      if x - of_int f < 1 / 2 then f
      else if 1 / 2 < x - of_int f then f + 1
      else if even f then f else f + 1)"

definition binade :: "int \<Rightarrow> real \<Rightarrow> int" where
  "binade emin x = max \<lfloor>log 2 \<bar>x\<bar>\<rfloor> emin"

definition fl :: "nat \<Rightarrow> int \<Rightarrow> real \<Rightarrow> real" where
  "fl p emin x =
     (if x = 0 then 0
      else let ulp = pow2 (binade emin x - int p + 1)
           in of_int (round_half_even (x / ulp)) * ulp)"

definition float32 :: "real \<Rightarrow> real" where
  "float32 = fl 24 (- 126)"

definition float64 :: "real \<Rightarrow> real" where
  "float64 = fl 53 (- 1022)"

section \<open>The graph, its node-data store and the tensor objects\<close>

text \<open>
  A tensor is an object: two names may hold the same tensor, and a change made to it in
  place is seen through both. The heap holds the tensor objects by address. A graph has
  nodes \<open>0..<number_of_nodes\<close>, a list of directed edges (source, destination), and the
  node-data store \<^verbatim>\<open>g.ndata\<close>, a dictionary from field names to the addresses of
  tensors with one row per node. The graph and the heap are shared and mutable in the
  source; here every operation that writes them returns the new ones.
\<close>

type_synonym heap = "tensor list"

record DGLGraph =
  number_of_nodes :: nat
  edges :: "(nat \<times> nat) list"
  ndata :: "string \<rightharpoonup> nat"

definition wf_edges :: "DGLGraph \<Rightarrow> bool" where
  "wf_edges g = list_all (\<lambda>(u, v). u < number_of_nodes g \<and> v < number_of_nodes g) (edges g)"

text \<open>
  \<^verbatim>\<open>g.ndata[k]\<close> (the address of the tensor, \<open>ndata_ref\<close>, and the tensor read through
  it, \<open>ndata_get\<close>), \<^verbatim>\<open>g.ndata[k] = t\<close> for a new tensor \<open>t\<close>, and \<^verbatim>\<open>g.ndata.pop(k)\<close>.
\<close>

definition ndata_ref :: "heap \<Rightarrow> DGLGraph \<Rightarrow> string \<Rightarrow> error + nat" where
  "ndata_ref hp g k =
     (case ndata g k of
        None \<Rightarrow> Inl KeyError
      | Some a \<Rightarrow> if a < length hp then Inr a else Inl KeyError)"

definition ndata_get :: "heap \<Rightarrow> DGLGraph \<Rightarrow> string \<Rightarrow> error + tensor" where
  "ndata_get hp g k = (case ndata_ref hp g k of Inl e \<Rightarrow> Inl e | Inr a \<Rightarrow> Inr (hp ! a))"

definition ndata_set :: "heap \<Rightarrow> DGLGraph \<Rightarrow> string \<Rightarrow> tensor \<Rightarrow> error + (heap \<times> DGLGraph)" where
  "ndata_set hp g k t =
     (if nrows t \<noteq> number_of_nodes g then Inl DGLError
      else Inr (hp @ [t], g\<lparr>ndata := (ndata g)(k \<mapsto> length hp)\<rparr>))"

definition ndata_pop :: "heap \<Rightarrow> DGLGraph \<Rightarrow> string \<Rightarrow> error + (tensor \<times> DGLGraph)" where
  "ndata_pop hp g k =
     (case ndata_ref hp g k of
        Inl e \<Rightarrow> Inl e
      | Inr a \<Rightarrow> Inr (hp ! a, g\<lparr>ndata := (ndata g)(k := None)\<rparr>))"

text \<open>
  A change in place of the tensor that a field holds, such as
  \<^verbatim>\<open>g.ndata[k].copy_(t)\<close> or \<^verbatim>\<open>g.ndata[k] *= 2\<close>: the object keeps its address and gets
  new entries. No method of the module does this; a caller can.
\<close>

definition inplace_copy :: "heap \<Rightarrow> DGLGraph \<Rightarrow> string \<Rightarrow> tensor \<Rightarrow> heap" where
  "inplace_copy hp g k t = (case ndata g k of None \<Rightarrow> hp | Some a \<Rightarrow> hp[a := t])"

text \<open>The in-neighbours of a node: the sources of its incoming edges, in edge order.\<close>

definition innbs :: "DGLGraph \<Rightarrow> nat \<Rightarrow> nat list" where
  "innbs g v = map fst (filter (\<lambda>e. snd e = v) (edges g))"

definition vadd :: "real list \<Rightarrow> real list \<Rightarrow> real list" where
  "vadd x y = map2 (+) x y"

text \<open>
  Modelled from the spec: \<^verbatim>\<open>DGLGraph.update_all\<close> with the built-in message function
  \<^verbatim>\<open>fn.copy_src(src, out='m')\<close> and the built-in reduce function
  \<^verbatim>\<open>fn.sum(msg='m', out)\<close> is code of the graph library, which is not among the source
  files. The spec calls it a scatter-gather message-passing call in which each node's
  updated feature is a reduction (sum) over the messages sent from neighbouring nodes:
  every edge carries the source's feature row as its message (\<open>copy_src\<close>), and the
  messages are added, edge by edge, into the slot of their destination, all slots
  starting from zero (\<open>scatter_add\<close>). The result is a new tensor, bound to the output
  field.
\<close>

definition copy_src :: "tensor \<Rightarrow> (nat \<times> nat) list \<Rightarrow> (nat \<times> real list) list" where
  "copy_src t es = map (\<lambda>(u, v). (v, rows t ! u)) es"

fun scatter_add :: "(nat \<times> real list) list \<Rightarrow> real list list \<Rightarrow> real list list" where
  "scatter_add [] acc = acc"
| "scatter_add ((v, m) # ms) acc = scatter_add ms (acc[v := vadd (acc ! v) m])"

definition copy_src_sum :: "DGLGraph \<Rightarrow> tensor \<Rightarrow> tensor" where
  "copy_src_sum g t =
     \<lparr>ncols = ncols t,
      rows = scatter_add (copy_src t (edges g))
               (replicate (number_of_nodes g) (replicate (ncols t) 0))\<rparr>"

definition update_all :: "heap \<Rightarrow> DGLGraph \<Rightarrow> string \<Rightarrow> string \<Rightarrow> error + (heap \<times> DGLGraph)" where
  "update_all hp g src out =
     (case ndata_get hp g src of
        Inl e \<Rightarrow> Inl e
      | Inr t \<Rightarrow> Inr (hp @ [copy_src_sum g t], g\<lparr>ndata := (ndata g)(out \<mapsto> length hp)\<rparr>))"

section \<open>Parameter initialisation\<close>

text \<open>
  The random source is a stream of draws from the unit interval \<open>[0, 1)\<close>.
  \<^verbatim>\<open>uniform_(lo, hi)\<close> (here \<open>uniform_fill\<close>) takes its bounds as binary32 numbers
  and fills a binary32 tensor: every entry is the binary32 number nearest to
  \<open>from + (to - from) * u\<close> for one draw \<open>u\<close>, where \<open>from\<close> and \<open>to\<close> are the rounded
  bounds; the stream advances by the number of entries.

  \<^verbatim>\<open>torch.Tensor(n, m)\<close> allocates a tensor whose entries are not initialised (zero
  here; they are overwritten before they are read). A size that is not a 64-bit integer
  is a \<open>TypeError\<close>; a negative size, or more entries than the allocator can provide
  (\<open>cap\<close>, a parameter of the machine), is a \<open>RuntimeError\<close>. \<^verbatim>\<open>nn.Dropout(p)\<close>
  refuses a probability outside \<open>[0, 1]\<close>.
\<close>

type_synonym rng = "nat \<Rightarrow> real"

definition unit_draws :: "rng \<Rightarrow> bool" where
  "unit_draws r = (\<forall>k. 0 \<le> r k \<and> r k < 1)"

definition uniform_fill :: "real \<Rightarrow> real \<Rightarrow> tensor \<Rightarrow> rng \<Rightarrow> tensor \<times> rng" where
  "uniform_fill lo hi t r =
     (\<lparr>ncols = ncols t,
       rows = map (\<lambda>i. map (\<lambda>j. float32 (float32 lo
                                   + (float32 hi - float32 lo) * r (i * ncols t + j)))
                         [0..<ncols t])
                [0..<nrows t]\<rparr>,
      \<lambda>k. r (k + nrows t * ncols t))"

definition uniform_fill1 :: "real \<Rightarrow> real \<Rightarrow> real list \<Rightarrow> rng \<Rightarrow> real list \<times> rng" where
  "uniform_fill1 lo hi b r =
     (map (\<lambda>j. float32 (float32 lo + (float32 hi - float32 lo) * r j)) [0..<length b],
      \<lambda>k. r (k + length b))"

definition int64_ok :: "int \<Rightarrow> bool" where
  "int64_ok n = (- (2 ^ 63) \<le> n \<and> n < 2 ^ 63)"

definition torch_Tensor :: "nat \<Rightarrow> int \<Rightarrow> int \<Rightarrow> error + tensor" where
  "torch_Tensor cap n m =
     (if \<not> int64_ok n \<or> \<not> int64_ok m then Inl TypeError
      else if n < 0 \<or> m < 0 then Inl RuntimeError
      else if cap < nat n * nat m then Inl RuntimeError
      else Inr \<lparr>ncols = nat m, rows = replicate (nat n) (replicate (nat m) 0)\<rparr>)"

definition torch_Tensor1 :: "nat \<Rightarrow> int \<Rightarrow> error + real list" where
  "torch_Tensor1 cap m =
     (if \<not> int64_ok m then Inl TypeError
      else if m < 0 then Inl RuntimeError
      else if cap < nat m then Inl RuntimeError
      else Inr (replicate (nat m) 0))"

definition nn_Dropout :: "real \<Rightarrow> error + real" where
  "nn_Dropout p = (if p < 0 \<or> 1 < p then Inl ValueError else Inr p)"

text \<open>
  \<^verbatim>\<open>1. / math.sqrt(n)\<close> for a tensor size \<open>n > 0\<close>, in Python's binary64 arithmetic: the
  size is converted, the square root and the quotient are rounded.
\<close>

definition stdv_of :: "nat \<Rightarrow> real" where
  "stdv_of n = float64 (1 / float64 (sqrt (float64 (real n))))"

section \<open>GCNLayer\<close>

text \<open>
  The fields of a layer. \<open>dropout\<close> is \<open>Some p\<close> for the module \<^verbatim>\<open>nn.Dropout(p)\<close>
  and \<open>None\<close> for the number \<^verbatim>\<open>0.\<close>; \<open>activation\<close> is \<open>None\<close> for \<^verbatim>\<open>None\<close> and
  otherwise a callable that returns a tensor or raises. The field \<^verbatim>\<open>self.g\<close> is a
  reference to the shared graph: the graph is an argument of every operation that uses
  it.
\<close>

record GCNLayer =
  weight :: tensor
  bias :: "real list option"
  activation :: "(tensor \<Rightarrow> error + tensor) option"
  dropout :: "real option"

definition GCNLayer_reset_parameters :: "GCNLayer \<Rightarrow> rng \<Rightarrow> error + (GCNLayer \<times> rng)" where
  "GCNLayer_reset_parameters self r =
     (if ncols (weight self) = 0 then Inl ZeroDivisionError
      else
        let stdv = stdv_of (ncols (weight self));
            (w, r1) = uniform_fill (- stdv) stdv (weight self) r
        in case bias self of
             None \<Rightarrow> Inr (self\<lparr>weight := w\<rparr>, r1)
           | Some b \<Rightarrow>
               let (b', r2) = uniform_fill1 (- stdv) stdv b r1
               in Inr (self\<lparr>weight := w, bias := Some b'\<rparr>, r2))"

definition GCNLayer_init ::
  "nat \<Rightarrow> int \<Rightarrow> int \<Rightarrow> (tensor \<Rightarrow> error + tensor) option \<Rightarrow> real \<Rightarrow> bool \<Rightarrow> rng
     \<Rightarrow> error + (GCNLayer \<times> rng)" where
  "GCNLayer_init cap in_feats out_feats act dropout_p use_bias r =
     (case torch_Tensor cap in_feats out_feats of
        Inl e \<Rightarrow> Inl e
      | Inr w \<Rightarrow>
     (case (if use_bias then map_sum id Some (torch_Tensor1 cap out_feats) else Inr None) of
        Inl e \<Rightarrow> Inl e
      | Inr b \<Rightarrow>
     (case (if dropout_p \<noteq> 0 then map_sum id Some (nn_Dropout dropout_p) else Inr None) of
        Inl e \<Rightarrow> Inl e
      | Inr d \<Rightarrow>
          GCNLayer_reset_parameters
            \<lparr>weight = w, bias = b, activation = act, dropout = d\<rparr> r)))"

text \<open>
  \<^verbatim>\<open>GCNLayer.forward\<close>. The first argument is the dropout function of the tensor
  library for the random draws of this call; the result is the returned tensor or the
  exception raised, together with the heap and the graph as the call leaves them.
\<close>

definition GCNLayer_forward ::
  "(real \<Rightarrow> tensor \<Rightarrow> tensor) \<Rightarrow> GCNLayer \<Rightarrow> heap \<Rightarrow> DGLGraph \<Rightarrow> tensor
     \<Rightarrow> (error + tensor) \<times> heap \<times> DGLGraph" where
  "GCNLayer_forward dropout_fn self hp g h =
     (let h = (case dropout self of Some p \<Rightarrow> dropout_fn p h | None \<Rightarrow> h) in
      case torch_mm h (weight self) of Inl e \<Rightarrow> (Inl e, hp, g) | Inr h \<Rightarrow>
      case ndata_get hp g ''norm'' of Inl e \<Rightarrow> (Inl e, hp, g) | Inr nrm \<Rightarrow>
      case tensor_mul h nrm of Inl e \<Rightarrow> (Inl e, hp, g) | Inr h \<Rightarrow>
      case ndata_set hp g ''h'' h of Inl e \<Rightarrow> (Inl e, hp, g) | Inr (hp, g) \<Rightarrow>
      case update_all hp g ''h'' ''h'' of Inl e \<Rightarrow> (Inl e, hp, g) | Inr (hp, g) \<Rightarrow>
      case ndata_pop hp g ''h'' of Inl e \<Rightarrow> (Inl e, hp, g) | Inr (h, g) \<Rightarrow>
      case ndata_get hp g ''norm'' of Inl e \<Rightarrow> (Inl e, hp, g) | Inr nrm \<Rightarrow>
      case tensor_mul h nrm of Inl e \<Rightarrow> (Inl e, hp, g) | Inr h \<Rightarrow>
      case (case bias self of Some b \<Rightarrow> tensor_add h (as_row b) | None \<Rightarrow> Inr h) of
        Inl e \<Rightarrow> (Inl e, hp, g)
      | Inr h \<Rightarrow> (case activation self of Some f \<Rightarrow> (f h, hp, g) | None \<Rightarrow> (Inr h, hp, g)))"

section \<open>EglGCNLayer\<close>

text \<open>
  The layer with offloaded aggregation has the fields of \<open>GCNLayer\<close> and the field
  \<^verbatim>\<open>self.norm\<close>: the assignment \<^verbatim>\<open>self.norm = self.g.ndata['norm']\<close> makes no copy, the
  field holds the address of the tensor that the store holds when the layer is
  constructed. The context manager \<^verbatim>\<open>self.cm\<close> holds no data of its own; what it does is
  the block of \<^verbatim>\<open>forward\<close> between \<^verbatim>\<open>zoomIn\<close> and \<^verbatim>\<open>zoomOut\<close>.
\<close>

record EglGCNLayer = GCNLayer +
  self_norm :: nat

definition EglGCNLayer_reset_parameters ::
  "EglGCNLayer \<Rightarrow> rng \<Rightarrow> error + (EglGCNLayer \<times> rng)" where
  "EglGCNLayer_reset_parameters self r =
     (if ncols (weight self) = 0 then Inl ZeroDivisionError
      else
        let stdv = stdv_of (ncols (weight self));
            (w, r1) = uniform_fill (- stdv) stdv (weight self) r
        in case bias self of
             None \<Rightarrow> Inr (self\<lparr>weight := w\<rparr>, r1)
           | Some b \<Rightarrow>
               let (b', r2) = uniform_fill1 (- stdv) stdv b r1
               in Inr (self\<lparr>weight := w, bias := Some b'\<rparr>, r2))"

definition EglGCNLayer_init ::
  "nat \<Rightarrow> heap \<Rightarrow> DGLGraph \<Rightarrow> int \<Rightarrow> int \<Rightarrow> (tensor \<Rightarrow> error + tensor) option \<Rightarrow> real \<Rightarrow> bool
     \<Rightarrow> rng \<Rightarrow> error + (EglGCNLayer \<times> rng)" where
  "EglGCNLayer_init cap hp g in_feats out_feats act dropout_p use_bias r =
     (case ndata_ref hp g ''norm'' of
        Inl e \<Rightarrow> Inl e
      | Inr nrm \<Rightarrow>
     (case torch_Tensor cap in_feats out_feats of
        Inl e \<Rightarrow> Inl e
      | Inr w \<Rightarrow>
     (case (if use_bias then map_sum id Some (torch_Tensor1 cap out_feats) else Inr None) of
        Inl e \<Rightarrow> Inl e
      | Inr b \<Rightarrow>
     (case (if dropout_p \<noteq> 0 then map_sum id Some (nn_Dropout dropout_p) else Inr None) of
        Inl e \<Rightarrow> Inl e
      | Inr d \<Rightarrow>
          EglGCNLayer_reset_parameters
            \<lparr>weight = w, bias = b, activation = act, dropout = d, self_norm = nrm\<rparr> r))))"

text \<open>
  Modelled from the spec: the context manager \<^verbatim>\<open>egl.ContextManager\<close> and the backend
  \<^verbatim>\<open>dgl.backend.run_egl\<close> it runs on are not among the source files. The spec calls
  the construct a scoped one that delegates the neighbourhood aggregation to an external
  execution backend instead of the built-in message-passing call. The block between
  \<^verbatim>\<open>zoomIn\<close> and \<^verbatim>\<open>zoomOut\<close> is a program for one vertex \<open>v\<close>; the backend is given
  one feature row per node, runs the program at every node of the graph on the node's
  in-neighbours, and \<^verbatim>\<open>zoomOut\<close> returns the collected rows as one tensor, whose width
  is the broadcast width of the rows the program multiplies.
\<close>

definition zoomIn_zoomOut ::
  "DGLGraph \<Rightarrow> tensor \<Rightarrow> tensor \<Rightarrow> (nat \<Rightarrow> nat list \<Rightarrow> nat \<Rightarrow> real list) \<Rightarrow> error + tensor" where
  "zoomIn_zoomOut g h nrm body =
     (if nrows h \<noteq> number_of_nodes g \<or> nrows nrm \<noteq> number_of_nodes g then Inl DGLError
      else case broadcast_dim (ncols h) (ncols nrm) of
             None \<Rightarrow> Inl RuntimeError
           | Some w \<Rightarrow>
               Inr \<lparr>ncols = w, rows = map (\<lambda>v. body w (innbs g v) v) [0..<number_of_nodes g]\<rparr>)"

text \<open>
  Rows multiply with broadcasting (a row of one entry is read at index 0), and
  \<^verbatim>\<open>sum\<close> adds the rows of a list from the left, starting from zero.
\<close>

definition vmul :: "nat \<Rightarrow> real list \<Rightarrow> real list \<Rightarrow> real list" where
  "vmul w x y =
     map (\<lambda>j. x ! (if length x = 1 then 0 else j) * y ! (if length y = 1 then 0 else j)) [0..<w]"

definition vsum :: "nat \<Rightarrow> real list list \<Rightarrow> real list" where
  "vsum w xs = foldl vadd (replicate w 0) xs"

text \<open>
  \<^verbatim>\<open>EglGCNLayer.forward\<close> reads the tensor \<^verbatim>\<open>self.norm\<close> from the heap when it is called
  and leaves the heap and the graph as they are.
\<close>

definition EglGCNLayer_forward ::
  "(real \<Rightarrow> tensor \<Rightarrow> tensor) \<Rightarrow> EglGCNLayer \<Rightarrow> heap \<Rightarrow> DGLGraph \<Rightarrow> tensor \<Rightarrow> error + tensor" where
  "EglGCNLayer_forward dropout_fn self hp g h =
     (let h = (case dropout self of Some p \<Rightarrow> dropout_fn p h | None \<Rightarrow> h) in
      case torch_mm h (weight self) of Inl e \<Rightarrow> Inl e | Inr h \<Rightarrow>
      case zoomIn_zoomOut g h (hp ! self_norm self)
             (\<lambda>w innbs_v v.
                let h_v = vsum w (map (\<lambda>nb. vmul w (rows h ! nb) (rows (hp ! self_norm self) ! nb)) innbs_v)
                in vmul w h_v (rows (hp ! self_norm self) ! v)) of
        Inl e \<Rightarrow> Inl e
      | Inr h \<Rightarrow>
      case (case bias self of Some b \<Rightarrow> tensor_add h (as_row b) | None \<Rightarrow> Inr h) of
        Inl e \<Rightarrow> Inl e
      | Inr h \<Rightarrow> (case activation self of Some f \<Rightarrow> f h | None \<Rightarrow> Inr h))"

section \<open>GCN and EglGCN\<close>

record GCN =
  layers :: "GCNLayer list"

record EglGCN =
  egl_layers :: "EglGCNLayer list"

text \<open>The loop \<^verbatim>\<open>for i in range(n_layers - 1)\<close> of the constructors.\<close>

fun GCN_hidden_layers ::
  "nat \<Rightarrow> nat \<Rightarrow> int \<Rightarrow> (tensor \<Rightarrow> error + tensor) option \<Rightarrow> real \<Rightarrow> rng
     \<Rightarrow> error + (GCNLayer list \<times> rng)" where
  "GCN_hidden_layers 0 cap n_hidden act dropout_p r = Inr ([], r)"
| "GCN_hidden_layers (Suc k) cap n_hidden act dropout_p r =
     (case GCNLayer_init cap n_hidden n_hidden act dropout_p True r of
        Inl e \<Rightarrow> Inl e
      | Inr (l, r1) \<Rightarrow>
          (case GCN_hidden_layers k cap n_hidden act dropout_p r1 of
             Inl e \<Rightarrow> Inl e
           | Inr (ls, r2) \<Rightarrow> Inr (l # ls, r2)))"

definition GCN_init ::
  "nat \<Rightarrow> int \<Rightarrow> int \<Rightarrow> int \<Rightarrow> int \<Rightarrow> (tensor \<Rightarrow> error + tensor) option \<Rightarrow> real \<Rightarrow> rng
     \<Rightarrow> error + (GCN \<times> rng)" where
  "GCN_init cap in_feats n_hidden n_classes n_layers act dropout_p r =
     (case GCNLayer_init cap in_feats n_hidden act 0 True r of
        Inl e \<Rightarrow> Inl e
      | Inr (l_in, r1) \<Rightarrow>
     (case GCN_hidden_layers (nat (n_layers - 1)) cap n_hidden act dropout_p r1 of
        Inl e \<Rightarrow> Inl e
      | Inr (ls, r2) \<Rightarrow>
     (case GCNLayer_init cap n_hidden n_classes None dropout_p True r2 of
        Inl e \<Rightarrow> Inl e
      | Inr (l_out, r3) \<Rightarrow> Inr (\<lparr>layers = l_in # ls @ [l_out]\<rparr>, r3))))"

text \<open>The loop \<^verbatim>\<open>for layer in self.layers\<close> of \<^verbatim>\<open>forward\<close>.\<close>

fun GCN_layers_forward ::
  "(real \<Rightarrow> tensor \<Rightarrow> tensor) \<Rightarrow> GCNLayer list \<Rightarrow> heap \<Rightarrow> DGLGraph \<Rightarrow> tensor
     \<Rightarrow> (error + tensor) \<times> heap \<times> DGLGraph" where
  "GCN_layers_forward dropout_fn [] hp g h = (Inr h, hp, g)"
| "GCN_layers_forward dropout_fn (l # ls) hp g h =
     (case GCNLayer_forward dropout_fn l hp g h of
        (Inl e, hp', g') \<Rightarrow> (Inl e, hp', g')
      | (Inr h', hp', g') \<Rightarrow> GCN_layers_forward dropout_fn ls hp' g' h')"

definition GCN_forward ::
  "(real \<Rightarrow> tensor \<Rightarrow> tensor) \<Rightarrow> GCN \<Rightarrow> heap \<Rightarrow> DGLGraph \<Rightarrow> tensor
     \<Rightarrow> (error + tensor) \<times> heap \<times> DGLGraph" where
  "GCN_forward dropout_fn self hp g features =
     GCN_layers_forward dropout_fn (layers self) hp g features"

fun EglGCN_hidden_layers ::
  "nat \<Rightarrow> nat \<Rightarrow> heap \<Rightarrow> DGLGraph \<Rightarrow> int \<Rightarrow> (tensor \<Rightarrow> error + tensor) option \<Rightarrow> real \<Rightarrow> rng
     \<Rightarrow> error + (EglGCNLayer list \<times> rng)" where
  "EglGCN_hidden_layers 0 cap hp g n_hidden act dropout_p r = Inr ([], r)"
| "EglGCN_hidden_layers (Suc k) cap hp g n_hidden act dropout_p r =
     (case EglGCNLayer_init cap hp g n_hidden n_hidden act dropout_p True r of
        Inl e \<Rightarrow> Inl e
      | Inr (l, r1) \<Rightarrow>
          (case EglGCN_hidden_layers k cap hp g n_hidden act dropout_p r1 of
             Inl e \<Rightarrow> Inl e
           | Inr (ls, r2) \<Rightarrow> Inr (l # ls, r2)))"

definition EglGCN_init ::
  "nat \<Rightarrow> heap \<Rightarrow> DGLGraph \<Rightarrow> int \<Rightarrow> int \<Rightarrow> int \<Rightarrow> int \<Rightarrow> (tensor \<Rightarrow> error + tensor) option
     \<Rightarrow> real \<Rightarrow> rng \<Rightarrow> error + (EglGCN \<times> rng)" where
  "EglGCN_init cap hp g in_feats n_hidden n_classes n_layers act dropout_p r =
     (case EglGCNLayer_init cap hp g in_feats n_hidden act 0 True r of
        Inl e \<Rightarrow> Inl e
      | Inr (l_in, r1) \<Rightarrow>
     (case EglGCN_hidden_layers (nat (n_layers - 1)) cap hp g n_hidden act dropout_p r1 of
        Inl e \<Rightarrow> Inl e
      | Inr (ls, r2) \<Rightarrow>
     (case EglGCNLayer_init cap hp g n_hidden n_classes None dropout_p True r2 of
        Inl e \<Rightarrow> Inl e
      | Inr (l_out, r3) \<Rightarrow> Inr (\<lparr>egl_layers = l_in # ls @ [l_out]\<rparr>, r3))))"

fun EglGCN_layers_forward ::
  "(real \<Rightarrow> tensor \<Rightarrow> tensor) \<Rightarrow> EglGCNLayer list \<Rightarrow> heap \<Rightarrow> DGLGraph \<Rightarrow> tensor
     \<Rightarrow> error + tensor" where
  "EglGCN_layers_forward dropout_fn [] hp g h = Inr h"
| "EglGCN_layers_forward dropout_fn (l # ls) hp g h =
     (case EglGCNLayer_forward dropout_fn l hp g h of
        Inl e \<Rightarrow> Inl e
      | Inr h' \<Rightarrow> EglGCN_layers_forward dropout_fn ls hp g h')"

definition EglGCN_forward ::
  "(real \<Rightarrow> tensor \<Rightarrow> tensor) \<Rightarrow> EglGCN \<Rightarrow> heap \<Rightarrow> DGLGraph \<Rightarrow> tensor \<Rightarrow> error + tensor" where
  "EglGCN_forward dropout_fn self hp g features =
     EglGCN_layers_forward dropout_fn (egl_layers self) hp g features"

section \<open>The steps of a layer, one after the other\<close>

text \<open>
  The steps that the forward methods are said to compose, each a function from tensor to
  tensor that may fail; \<open>bind_err\<close> feeds a result to the next step and passes a failure
  on unchanged.
\<close>

definition bind_err :: "error + 'a \<Rightarrow> ('a \<Rightarrow> error + 'b) \<Rightarrow> error + 'b" where
  "bind_err m f = (case m of Inl e \<Rightarrow> Inl e | Inr x \<Rightarrow> f x)"

definition step_dropout ::
  "(real \<Rightarrow> tensor \<Rightarrow> tensor) \<Rightarrow> 'a GCNLayer_scheme \<Rightarrow> tensor \<Rightarrow> error + tensor" where
  "step_dropout dropout_fn self h =
     Inr (case dropout self of Some p \<Rightarrow> dropout_fn p h | None \<Rightarrow> h)"

definition step_linear :: "'a GCNLayer_scheme \<Rightarrow> tensor \<Rightarrow> error + tensor" where
  "step_linear self h = torch_mm h (weight self)"

definition step_norm :: "heap \<Rightarrow> DGLGraph \<Rightarrow> tensor \<Rightarrow> error + tensor" where
  "step_norm hp g h = bind_err (ndata_get hp g ''norm'') (tensor_mul h)"

definition step_message_sum :: "DGLGraph \<Rightarrow> tensor \<Rightarrow> error + tensor" where
  "step_message_sum g h =
     (if nrows h \<noteq> number_of_nodes g then Inl DGLError else Inr (copy_src_sum g h))"

definition step_bias :: "'a GCNLayer_scheme \<Rightarrow> tensor \<Rightarrow> error + tensor" where
  "step_bias self h = (case bias self of Some b \<Rightarrow> tensor_add h (as_row b) | None \<Rightarrow> Inr h)"

definition step_activation :: "'a GCNLayer_scheme \<Rightarrow> tensor \<Rightarrow> error + tensor" where
  "step_activation self h = (case activation self of Some f \<Rightarrow> f h | None \<Rightarrow> Inr h)"

definition GCNLayer_composition ::
  "(real \<Rightarrow> tensor \<Rightarrow> tensor) \<Rightarrow> GCNLayer \<Rightarrow> heap \<Rightarrow> DGLGraph \<Rightarrow> tensor \<Rightarrow> error + tensor" where
  "GCNLayer_composition dropout_fn self hp g h =
     bind_err (bind_err (bind_err (bind_err (bind_err (bind_err
       (step_dropout dropout_fn self h)
       (step_linear self))
       (step_norm hp g))
       (step_message_sum g))
       (step_norm hp g))
       (step_bias self))
       (step_activation self)"

text \<open>
  The offloaded aggregation as one step: the vertex program of \<^verbatim>\<open>EglGCNLayer.forward\<close>
  run by the backend on the tensor that \<^verbatim>\<open>self.norm\<close> refers to.
\<close>

definition step_offload :: "EglGCNLayer \<Rightarrow> heap \<Rightarrow> DGLGraph \<Rightarrow> tensor \<Rightarrow> error + tensor" where
  "step_offload self hp g h =
     zoomIn_zoomOut g h (hp ! self_norm self)
       (\<lambda>w innbs_v v.
          vmul w (vsum w (map (\<lambda>nb. vmul w (rows h ! nb) (rows (hp ! self_norm self) ! nb)) innbs_v))
            (rows (hp ! self_norm self) ! v))"

definition EglGCNLayer_composition ::
  "(real \<Rightarrow> tensor \<Rightarrow> tensor) \<Rightarrow> EglGCNLayer \<Rightarrow> heap \<Rightarrow> DGLGraph \<Rightarrow> tensor \<Rightarrow> error + tensor" where
  "EglGCNLayer_composition dropout_fn self hp g h =
     bind_err (bind_err (bind_err (bind_err
       (step_dropout dropout_fn self h)
       (step_linear self))
       (step_offload self hp g))
       (step_bias self))
       (step_activation self)"

section \<open>Parameter ranges and the origin of failures\<close>

text \<open>
  \<open>params_within s self\<close>: every entry of the weight, and of the bias when there is one,
  lies in the closed interval from \<open>- s\<close> to \<open>s\<close>.
\<close>

definition in_interval :: "real \<Rightarrow> real \<Rightarrow> bool" where
  "in_interval s x = (- s \<le> x \<and> x \<le> s)"

definition params_within :: "real \<Rightarrow> 'a GCNLayer_scheme \<Rightarrow> bool" where
  "params_within s self =
     (list_all (list_all (in_interval s)) (rows (weight self)) \<and>
      (case bias self of None \<Rightarrow> True | Some b \<Rightarrow> list_all (in_interval s) b))"

text \<open>
  The exceptions raised inside the tensor library (\<open>RuntimeError\<close>, \<open>ValueError\<close>,
  \<open>TypeError\<close>) and the graph library (\<open>KeyError\<close>, \<open>DGLError\<close>);
  \<open>ZeroDivisionError\<close> is raised by the float division \<^verbatim>\<open>1. / math.sqrt(...)\<close> of
  \<^verbatim>\<open>reset_parameters\<close> itself.
\<close>

fun library_error :: "error \<Rightarrow> bool" where
  "library_error ZeroDivisionError = False"
| "library_error e = True"

text \<open>
  The arguments with which the library calls of a layer constructor (bias enabled)
  succeed: \<open>dropout_ok\<close> for \<^verbatim>\<open>nn.Dropout\<close>, which is only called for a nonzero
  probability; \<open>layer_builds\<close> when the constructor returns a layer;
  \<open>layer_divides_by_zero\<close> when the library calls succeed and the width of the weight
  is 0.
\<close>

definition dropout_ok :: "real \<Rightarrow> bool" where
  "dropout_ok p = (p = 0 \<or> (0 \<le> p \<and> p \<le> 1))"

definition layer_builds :: "nat \<Rightarrow> int \<Rightarrow> int \<Rightarrow> real \<Rightarrow> bool" where
  "layer_builds cap in_feats out_feats p =
     (int64_ok in_feats \<and> int64_ok out_feats \<and> 0 \<le> in_feats \<and> 0 < out_feats \<and>
      nat in_feats * nat out_feats \<le> cap \<and> nat out_feats \<le> cap \<and> dropout_ok p)"

definition layer_divides_by_zero :: "int \<Rightarrow> int \<Rightarrow> real \<Rightarrow> bool" where
  "layer_divides_by_zero in_feats out_feats p =
     (int64_ok in_feats \<and> 0 \<le> in_feats \<and> out_feats = 0 \<and> dropout_ok p)"

section \<open>A small graph\<close>

text \<open>
  Three nodes, the edges \<open>0 \<rightarrow> 1\<close>, \<open>1 \<rightarrow> 2\<close> and \<open>2 \<rightarrow> 1\<close>, a \<open>norm\<close> column at
  address 0 of the heap, a layer with the identity as weight, and dropout in evaluation
  mode (the identity).
\<close>

definition eval_dropout :: "real \<Rightarrow> tensor \<Rightarrow> tensor" where
  "eval_dropout p t = t"

definition ex_norm :: tensor where
  "ex_norm = \<lparr>ncols = 1, rows = [[1], [2], [3]]\<rparr>"

definition ex_heap :: heap where
  "ex_heap = [ex_norm]"

definition ex_graph :: DGLGraph where
  "ex_graph = \<lparr>number_of_nodes = 3, edges = [(0, 1), (1, 2), (2, 1)],
                ndata = [''norm'' \<mapsto> 0]\<rparr>"

definition ex_h :: tensor where
  "ex_h = \<lparr>ncols = 1, rows = [[7], [8], [9]]\<rparr>"

text \<open>The same graph holding a field \<open>h\<close> as well.\<close>

definition ex_heap_h :: heap where
  "ex_heap_h = [ex_norm, ex_h]"

definition ex_graph_h :: DGLGraph where
  "ex_graph_h = ex_graph\<lparr>ndata := (ndata ex_graph)(''h'' \<mapsto> 1)\<rparr>"

definition ex_layer :: GCNLayer where
  "ex_layer = \<lparr>weight = \<lparr>ncols = 2, rows = [[1, 0], [0, 1]]\<rparr>, bias = Some [1, 1],
                activation = None, dropout = None\<rparr>"

definition ex_features :: tensor where
  "ex_features = \<lparr>ncols = 2, rows = [[1, 2], [3, 4], [5, 6]]\<rparr>"

definition ex_output :: tensor where
  "ex_output = \<lparr>ncols = 2, rows = [[1, 1], [33, 41], [19, 25]]\<rparr>"




text \<open>
  Another \<open>norm\<close> column, and the heap and the graph after
  \<^verbatim>\<open>g.ndata['norm'] = ex_norm2\<close>, which binds the key to a new tensor.
\<close>

definition ex_norm2 :: tensor where
  "ex_norm2 = \<lparr>ncols = 1, rows = [[2], [2], [3]]\<rparr>"

definition ex_heap2 :: heap where
  "ex_heap2 = [ex_norm, ex_norm2]"

definition ex_graph2 :: DGLGraph where
  "ex_graph2 = ex_graph\<lparr>ndata := (ndata ex_graph)(''norm'' \<mapsto> 1)\<rparr>"

definition ex_output2 :: tensor where
  "ex_output2 = \<lparr>ncols = 2, rows = [[1, 1], [35, 45], [19, 25]]\<rparr>"

text \<open>
  Random sources whose every draw is \<open>1/4\<close>, and \<open>0\<close>; the layers that the constructors
  build from them: \<open>ex_layer1\<close> and \<open>ex_egl_layer1\<close> for 2 input features and width 1,
  \<open>ex_layer9\<close> for 1 input feature and width 9, \<open>ex_model\<close> for
  \<^verbatim>\<open>GCN(g, 2, 1, 1, 2, None, 0.5)\<close>.
\<close>

definition ex_rng :: rng where
  "ex_rng k = 1 / 4"

definition ex_rng0 :: rng where
  "ex_rng0 k = 0"

definition ex_layer1 :: GCNLayer where
  "ex_layer1 = \<lparr>weight = \<lparr>ncols = 1, rows = [[- 1 / 2], [- 1 / 2]]\<rparr>, bias = Some [- 1 / 2],
                 activation = None, dropout = None\<rparr>"

definition ex_egl_layer1 :: EglGCNLayer where
  "ex_egl_layer1 = \<lparr>weight = \<lparr>ncols = 1, rows = [[- 1 / 2], [- 1 / 2]]\<rparr>,
                     bias = Some [- 1 / 2], activation = None, dropout = None, self_norm = 0\<rparr>"

definition ex_layer9 :: GCNLayer where
  "ex_layer9 = \<lparr>weight = \<lparr>ncols = 9, rows = [replicate 9 (- 11184811 / 33554432)]\<rparr>,
                 bias = Some (replicate 9 (- 11184811 / 33554432)),
                 activation = None, dropout = None\<rparr>"

definition ex_hidden1 :: GCNLayer where
  "ex_hidden1 = \<lparr>weight = \<lparr>ncols = 1, rows = [[- 1 / 2]]\<rparr>, bias = Some [- 1 / 2],
                  activation = None, dropout = Some (1 / 2)\<rparr>"

definition ex_model :: GCN where
  "ex_model = \<lparr>layers = [ex_layer1, ex_hidden1, ex_hidden1]\<rparr>"

definition ex_egl_hidden1 :: EglGCNLayer where
  "ex_egl_hidden1 = \<lparr>weight = \<lparr>ncols = 1, rows = [[- 1 / 2]]\<rparr>, bias = Some [- 1 / 2],
                      activation = None, dropout = Some (1 / 2), self_norm = 0\<rparr>"

definition ex_egl_model :: EglGCN where
  "ex_egl_model = \<lparr>egl_layers = [ex_egl_layer1, ex_egl_hidden1, ex_egl_hidden1]\<rparr>"

definition ex_model_output :: tensor where
  "ex_model_output = \<lparr>ncols = 1, rows = [[- 1 / 2], [- 327], [- 194]]\<rparr>"

section \<open>Rounding is monotone and idempotent\<close>

lemma pow2_powr: "pow2 e = 2 powr (of_int e)"
  by (simp add: pow2_def powr_int)

lemma pow2_pos [simp]: "0 < pow2 e"
  by (simp add: pow2_powr)

lemma pow2_nonneg [simp]: "0 \<le> pow2 e"
  using pow2_pos [of e] by linarith

lemma pow2_add: "pow2 (a + b) = pow2 a * pow2 b"
  by (simp add: pow2_powr powr_add)

lemma pow2_mono: "a \<le> b \<Longrightarrow> pow2 a \<le> pow2 b"
  by (simp add: pow2_powr)

lemma pow2_nat: "pow2 (int n) = 2 ^ n"
  by (simp add: pow2_def)

lemma pow2_diff: "pow2 (a - b) = pow2 a / pow2 b"
  by (simp add: pow2_powr powr_diff)

lemma rhe_floor: "\<lfloor>x\<rfloor> \<le> round_half_even x" "round_half_even x \<le> \<lfloor>x\<rfloor> + 1"
  by (simp_all add: round_half_even_def Let_def)

lemma rhe_of_int [simp]: "round_half_even (of_int m) = m"
  by (simp add: round_half_even_def)

lemma rhe_mono: "x \<le> y \<Longrightarrow> round_half_even x \<le> round_half_even y"
proof -
  assume xy: "x \<le> y"
  have fg: "\<lfloor>x\<rfloor> \<le> \<lfloor>y\<rfloor>" using xy by (rule floor_mono)
  show ?thesis
  proof (cases "\<lfloor>x\<rfloor> = \<lfloor>y\<rfloor>")
    case True
    then show ?thesis using xy by (auto simp: round_half_even_def Let_def)
  next
    case False
    then have "\<lfloor>x\<rfloor> + 1 \<le> \<lfloor>y\<rfloor>" using fg by simp
    then show ?thesis using rhe_floor(2) [of x] rhe_floor(1) [of y] by linarith
  qed
qed

lemma floor_minus_nonint:
  assumes "x \<noteq> of_int \<lfloor>x\<rfloor>"
  shows "\<lfloor>- x\<rfloor> = - \<lfloor>x\<rfloor> - 1"
proof -
  have "\<lceil>x\<rceil> = \<lfloor>x\<rfloor> + 1" using assms by (simp add: ceiling_altdef)
  moreover have "\<lfloor>- x\<rfloor> = - \<lceil>x\<rceil>" by (simp add: ceiling_def)
  ultimately show ?thesis by simp
qed

lemma rhe_minus: "round_half_even (- x) = - round_half_even x"
proof (cases "x = of_int \<lfloor>x\<rfloor>")
  case True
  then obtain m :: int where "x = of_int m" ..
  then show ?thesis by (simp flip: of_int_minus)
next
  case False
  define f where "f = \<lfloor>x\<rfloor>"
  define d where "d = x - of_int f"
  have f': "\<lfloor>- x\<rfloor> = - f - 1" using floor_minus_nonint [OF False] by (simp add: f_def)
  have d': "- x - of_int (- f - 1) = 1 - d" by (simp add: d_def)
  have ev: "even (- f - 1) = odd f" by simp
  have lhs: "round_half_even (- x) =
      (if 1 - d < 1 / 2 then - f - 1 else if 1 / 2 < 1 - d then - f
       else if odd f then - f - 1 else - f)"
    unfolding round_half_even_def Let_def f' d' ev by simp
  have rhs: "round_half_even x =
      (if d < 1 / 2 then f else if 1 / 2 < d then f + 1 else if even f then f else f + 1)"
    unfolding round_half_even_def Let_def f_def [symmetric] d_def [symmetric] by simp
  show ?thesis
  proof (cases "d < 1 / 2")
    case True
    then show ?thesis unfolding lhs rhs by simp
  next
    case nlt: False
    show ?thesis
    proof (cases "1 / 2 < d")
      case True
      then show ?thesis unfolding lhs rhs by simp
    next
      case False
      with nlt have "d = 1 / 2" by simp
      then show ?thesis unfolding lhs rhs by simp
    qed
  qed
qed


lemma binade_minus [simp]: "binade emin (- x) = binade emin x"
  by (simp add: binade_def)

lemma fl_zero [simp]: "fl p emin 0 = 0"
  by (simp add: fl_def)

lemma fl_minus: "fl p emin (- x) = - fl p emin x"
  by (simp add: fl_def Let_def rhe_minus)

lemma floor_log2_bounds:
  assumes "0 < x"
  shows "pow2 \<lfloor>log 2 x\<rfloor> \<le> x" "x < pow2 (\<lfloor>log 2 x\<rfloor> + 1)"
proof -
  have "2 powr (of_int \<lfloor>log 2 x\<rfloor>) \<le> x \<and> x < 2 powr (of_int (\<lfloor>log 2 x\<rfloor> + 1))"
    using floor_log_eq_powr_iff [of x 2 "\<lfloor>log 2 x\<rfloor>"] assms by simp
  then show "pow2 \<lfloor>log 2 x\<rfloor> \<le> x" "x < pow2 (\<lfloor>log 2 x\<rfloor> + 1)"
    by (simp_all add: pow2_powr)
qed

lemma floor_log2_eq:
  assumes "pow2 k \<le> x" "x < pow2 (k + 1)"
  shows "\<lfloor>log 2 x\<rfloor> = k"
proof -
  have "0 < x" using assms(1) pow2_pos [of k] by linarith
  then show ?thesis
    using floor_log_eq_powr_iff [of x 2 k] assms by (simp add: pow2_powr)
qed

lemma binade_upper:
  assumes "0 < x"
  shows "x < pow2 (binade emin x + 1)"
proof -
  have "x < pow2 (\<lfloor>log 2 x\<rfloor> + 1)" using assms by (rule floor_log2_bounds)
  also have "\<dots> \<le> pow2 (binade emin x + 1)"
    using assms by (intro pow2_mono) (simp add: binade_def)
  finally show ?thesis .
qed

lemma binade_lower:
  assumes "0 < x" "emin \<le> \<lfloor>log 2 x\<rfloor>"
  shows "pow2 (binade emin x) \<le> x"
proof -
  have "binade emin x = \<lfloor>log 2 x\<rfloor>" using assms by (simp add: binade_def)
  then show ?thesis using floor_log2_bounds(1) [OF assms(1)] by simp
qed

lemma binade_mono:
  assumes "0 < x" "x \<le> y"
  shows "binade emin x \<le> binade emin y"
proof -
  have "log 2 x \<le> log 2 y" using assms by simp
  then have "\<lfloor>log 2 x\<rfloor> \<le> \<lfloor>log 2 y\<rfloor>" by (rule floor_mono)
  then show ?thesis using assms by (simp add: binade_def)
qed

lemma ulp_scale: "pow2 (e + 1) = 2 ^ p * pow2 (e - int p + 1)"
proof -
  have "pow2 (e + 1) = pow2 (int p + (e - int p + 1))" by simp
  also have "\<dots> = pow2 (int p) * pow2 (e - int p + 1)" by (rule pow2_add)
  finally show ?thesis by (simp add: pow2_nat)
qed

lemma ulp_scale': "1 \<le> p \<Longrightarrow> pow2 e = 2 ^ (p - 1) * pow2 (e - int p + 1)"
proof -
  assume p: "1 \<le> p"
  have "pow2 e = pow2 (int (p - 1) + (e - int p + 1))" using p by (simp add: of_nat_diff)
  also have "\<dots> = pow2 (int (p - 1)) * pow2 (e - int p + 1)" by (rule pow2_add)
  finally show ?thesis by (simp add: pow2_nat)
qed

lemma fl_pos:
  assumes "0 < x"
  shows "fl p emin x =
    of_int (round_half_even (x / pow2 (binade emin x - int p + 1))) * pow2 (binade emin x - int p + 1)"
  using assms by (simp add: fl_def Let_def)

lemma mantissa_upper:
  assumes "0 < x"
  shows "round_half_even (x / pow2 (binade emin x - int p + 1)) \<le> 2 ^ p"
proof -
  let ?u = "pow2 (binade emin x - int p + 1)"
  have "x < 2 ^ p * ?u" using binade_upper [OF assms, of emin] ulp_scale [of "binade emin x" p] by simp
  then have "x / ?u \<le> of_int (2 ^ p)" by (simp add: pos_divide_le_eq less_imp_le)
  then have "round_half_even (x / ?u) \<le> round_half_even (of_int (2 ^ p))" by (rule rhe_mono)
  then show ?thesis by (simp only: rhe_of_int)
qed

lemma mantissa_lower:
  assumes "0 < x" "emin \<le> \<lfloor>log 2 x\<rfloor>" "1 \<le> p"
  shows "2 ^ (p - 1) \<le> round_half_even (x / pow2 (binade emin x - int p + 1))"
proof -
  let ?u = "pow2 (binade emin x - int p + 1)"
  have "2 ^ (p - 1) * ?u \<le> x"
    using binade_lower [OF assms(1,2)] ulp_scale' [OF assms(3), of "binade emin x"] by simp
  then have "of_int (2 ^ (p - 1)) \<le> x / ?u" by (simp add: pos_le_divide_eq)
  then have "round_half_even (of_int (2 ^ (p - 1))) \<le> round_half_even (x / ?u)" by (rule rhe_mono)
  then show ?thesis by (simp only: rhe_of_int)
qed

lemma mantissa_nonneg:
  assumes "0 < x"
  shows "0 \<le> round_half_even (x / pow2 (binade emin x - int p + 1))"
proof -
  have "(0::real) \<le> x / pow2 (binade emin x - int p + 1)" using assms by simp
  then have "round_half_even (of_int 0) \<le> round_half_even (x / pow2 (binade emin x - int p + 1))"
    by (intro rhe_mono) simp
  then show ?thesis by (simp only: rhe_of_int)
qed

lemma fl_pos_nonneg: "0 < x \<Longrightarrow> 0 \<le> fl p emin x"
  using mantissa_nonneg [of x emin p] by (simp add: fl_pos)

lemma fl_pos_le:
  assumes "0 < x"
  shows "fl p emin x \<le> pow2 (binade emin x + 1)"
proof -
  let ?u = "pow2 (binade emin x - int p + 1)"
  have "of_int (round_half_even (x / ?u)) \<le> (2 ^ p :: real)"
    using mantissa_upper [OF assms, of emin p] by (metis of_int_le_iff of_int_numeral of_int_power)
  then have "of_int (round_half_even (x / ?u)) * ?u \<le> 2 ^ p * ?u"
    by (intro mult_right_mono) simp_all
  then show ?thesis using assms by (simp add: fl_pos ulp_scale [of "binade emin x" p])
qed

lemma fl_pos_ge:
  assumes "0 < x" "emin \<le> \<lfloor>log 2 x\<rfloor>" "1 \<le> p"
  shows "pow2 (binade emin x) \<le> fl p emin x"
proof -
  let ?u = "pow2 (binade emin x - int p + 1)"
  have "(2 ^ (p - 1) :: real) \<le> of_int (round_half_even (x / ?u))"
    using mantissa_lower [OF assms] by (metis of_int_le_iff of_int_numeral of_int_power)
  then have "2 ^ (p - 1) * ?u \<le> of_int (round_half_even (x / ?u)) * ?u"
    by (intro mult_right_mono) simp_all
  then show ?thesis using assms by (simp add: fl_pos ulp_scale' [OF assms(3), of "binade emin x"])
qed


lemma pow2_less_iff: "pow2 a < pow2 b \<longleftrightarrow> a < b"
  by (simp add: pow2_powr)

lemma binade_ge_emin: "emin \<le> binade emin x"
  by (simp add: binade_def)

lemma fl_mono_pos:
  assumes "0 < x" "x \<le> y" "1 \<le> p"
  shows "fl p emin x \<le> fl p emin y"
proof (cases "binade emin x = binade emin y")
  case True
  let ?u = "pow2 (binade emin y - int p + 1)"
  have y: "0 < y" using assms by linarith
  have "x / ?u \<le> y / ?u" using assms(2) by (simp add: divide_right_mono)
  then have "round_half_even (x / ?u) \<le> round_half_even (y / ?u)" by (rule rhe_mono)
  then have "of_int (round_half_even (x / ?u)) * ?u \<le> of_int (round_half_even (y / ?u)) * ?u"
    by (intro mult_right_mono) simp_all
  then show ?thesis using assms(1) y True by (simp add: fl_pos)
next
  case False
  have y: "0 < y" using assms by linarith
  have lt: "binade emin x < binade emin y"
    using binade_mono [OF assms(1,2), of emin] False by simp
  then have "emin < binade emin y" using binade_ge_emin [of emin x] by linarith
  then have un: "emin \<le> \<lfloor>log 2 y\<rfloor>" using y by (simp add: binade_def)
  have "fl p emin x \<le> pow2 (binade emin x + 1)" using assms(1) by (rule fl_pos_le)
  also have "\<dots> \<le> pow2 (binade emin y)" using lt by (intro pow2_mono) simp
  also have "\<dots> \<le> fl p emin y" using y un assms(3) by (rule fl_pos_ge)
  finally show ?thesis .
qed

lemma fl_nonneg: "0 \<le> x \<Longrightarrow> 0 \<le> fl p emin x"
  using fl_pos_nonneg [of x p emin] by (cases "x = 0") simp_all

lemma fl_mono:
  assumes "1 \<le> p" "x \<le> y"
  shows "fl p emin x \<le> fl p emin y"
proof -
  consider "0 < x" | "x \<le> 0" "0 \<le> y" | "y < 0" by linarith
  then show ?thesis
  proof cases
    case 1
    then show ?thesis using assms by (intro fl_mono_pos)
  next
    case 2
    have "0 \<le> fl p emin (- x)" using 2(1) by (intro fl_nonneg) simp
    then have "fl p emin x \<le> 0" by (simp add: fl_minus)
    also have "0 \<le> fl p emin y" using 2(2) by (rule fl_nonneg)
    finally show ?thesis .
  next
    case 3
    have "fl p emin (- y) \<le> fl p emin (- x)"
      using 3 assms by (intro fl_mono_pos) simp_all
    then show ?thesis by (simp add: fl_minus)
  qed
qed

lemma fl_idem_pos:
  assumes "0 < x" "1 \<le> p"
  shows "fl p emin (fl p emin x) = fl p emin x"
proof -
  define e where "e = binade emin x"
  define u where "u = pow2 (e - int p + 1)"
  define m where "m = round_half_even (x / u)"
  define y where "y = of_int m * u"
  have u: "0 < u" by (simp add: u_def)
  have y_eq: "fl p emin x = y" using assms(1) by (simp add: fl_pos y_def m_def u_def e_def)
  have m0: "0 \<le> m" using mantissa_nonneg [OF assms(1), of emin p] by (simp add: m_def u_def e_def)
  have mp: "m \<le> 2 ^ p" using mantissa_upper [OF assms(1), of emin p] by (simp add: m_def u_def e_def)
  have e_emin: "emin \<le> e" by (simp add: e_def binade_ge_emin)
  consider "m = 0" | "0 < m" "m < 2 ^ p" | "m = 2 ^ p" using m0 mp by linarith
  then have "fl p emin y = y"
  proof cases
    case 1
    then show ?thesis by (simp add: y_def)
  next
    case 2
    have ypos: "0 < y" using 2(1) u by (simp add: y_def)
    have "of_int m < (2 ^ p :: real)" using 2(2) by (metis of_int_less_iff of_int_numeral of_int_power)
    then have "y < 2 ^ p * u" using u by (simp add: y_def)
    then have yup: "y < pow2 (e + 1)" using ulp_scale [of e p] by (simp add: u_def)
    have "pow2 \<lfloor>log 2 y\<rfloor> \<le> y" using ypos by (rule floor_log2_bounds)
    then have "pow2 \<lfloor>log 2 y\<rfloor> < pow2 (e + 1)" using yup by linarith
    then have fle: "\<lfloor>log 2 y\<rfloor> \<le> e" by (simp add: pow2_less_iff)
    have be: "binade emin y = e"
    proof (cases "emin \<le> \<lfloor>log 2 x\<rfloor>")
      case True
      have "(2 ^ (p - 1) :: real) \<le> of_int m"
        using mantissa_lower [OF assms(1) True assms(2)]
        unfolding m_def u_def e_def by (metis of_int_le_iff of_int_numeral of_int_power)
      then have "2 ^ (p - 1) * u \<le> y" using u by (simp add: y_def)
      then have "pow2 e \<le> y" using ulp_scale' [OF assms(2), of e] by (simp add: u_def)
      then have "\<lfloor>log 2 y\<rfloor> = e" using yup by (rule floor_log2_eq)
      then show ?thesis using e_emin ypos by (simp add: binade_def)
    next
      case False
      then have "e = emin" using assms(1) by (simp add: e_def binade_def)
      then show ?thesis using fle ypos by (simp add: binade_def)
    qed
    have "fl p emin y = of_int (round_half_even (y / u)) * u"
      using ypos by (simp add: fl_pos be u_def)
    also have "y / u = of_int m" using u by (simp add: y_def)
    finally show ?thesis by (simp add: y_def)
  next
    case 3
    have yv: "y = pow2 (e + 1)" using 3 ulp_scale [of e p] by (simp add: y_def u_def)
    have ypos: "0 < y" by (simp add: yv)
    have "\<lfloor>log 2 y\<rfloor> = e + 1"
      by (rule floor_log2_eq) (simp_all add: yv pow2_less_iff)
    then have be: "binade emin y = e + 1" using e_emin ypos by (simp add: binade_def)
    have "pow2 (binade emin y - int p + 1) = pow2 (1 + (e - int p + 1))"
      by (simp add: be)
    also have "\<dots> = pow2 1 * pow2 (e - int p + 1)" by (rule pow2_add)
    finally have u2: "pow2 (binade emin y - int p + 1) = 2 * u"
      by (simp add: u_def pow2_def)
    have "y = 2 ^ p * u" using 3 by (simp add: y_def)
    also have "(2 ^ p :: real) = 2 ^ (p - 1) * 2"
      using assms(2) by (cases p) simp_all
    finally have q: "y / (2 * u) = of_int (2 ^ (p - 1))" using u by simp
    then have r: "round_half_even (y / (2 * u)) = 2 ^ (p - 1)" by (simp only: rhe_of_int)
    have "fl p emin y = of_int (round_half_even (y / pow2 (binade emin y - int p + 1)))
        * pow2 (binade emin y - int p + 1)"
      using ypos by (rule fl_pos)
    also have "\<dots> = of_int (2 ^ (p - 1)) * (2 * u)" by (simp only: u2 r)
    also have "\<dots> = y" using q u by (simp add: field_simps)
    finally show ?thesis .
  qed
  then show ?thesis by (simp add: y_eq)
qed

lemma fl_idem:
  assumes "1 \<le> p"
  shows "fl p emin (fl p emin x) = fl p emin x"
proof -
  consider "0 < x" | "x = 0" | "x < 0" by linarith
  then show ?thesis
  proof cases
    case 1
    then show ?thesis using assms by (rule fl_idem_pos)
  next
    case 2
    then show ?thesis by simp
  next
    case 3
    then have "fl p emin (fl p emin (- x)) = fl p emin (- x)"
      using assms by (intro fl_idem_pos) simp_all
    then show ?thesis by (simp add: fl_minus)
  qed
qed

lemma fl_eval:
  assumes "pow2 k \<le> x" "x < pow2 (k + 1)" "emin \<le> k"
  shows "fl p emin x =
    of_int (round_half_even (x / pow2 (k - int p + 1))) * pow2 (k - int p + 1)"
proof -
  have x: "0 < x" using assms(1) pow2_pos [of k] by linarith
  have "\<lfloor>log 2 x\<rfloor> = k" using assms(1,2) by (rule floor_log2_eq)
  then have "binade emin x = k" using x assms(3) by (simp add: binade_def)
  then show ?thesis using x by (simp add: fl_pos)
qed

lemma float64_9: "float64 9 = 9"
  unfolding float64_def
  by (subst fl_eval [where k = 3]) (simp_all add: pow2_def round_half_even_def)

lemma float64_3: "float64 3 = 3"
  unfolding float64_def
  by (subst fl_eval [where k = 1]) (simp_all add: pow2_def round_half_even_def)

lemma float64_third: "float64 (1 / 3) = 6004799503160661 / 18014398509481984"
  unfolding float64_def
  by (subst fl_eval [where k = "- 2"]) (simp_all add: pow2_def round_half_even_def)

lemma float32_third: "float32 (6004799503160661 / 18014398509481984) = 11184811 / 33554432"
  unfolding float32_def
  by (subst fl_eval [where k = "- 2"]) (simp_all add: pow2_def round_half_even_def)

lemma sqrt9: "sqrt 9 = 3"
proof -
  have "sqrt (3\<^sup>2) = 3" by (simp del: power2_eq_square)
  then show ?thesis by simp
qed

lemma float32_minus: "float32 (- x) = - float32 x"
  by (simp add: float32_def fl_minus)

lemma float32_mono: "x \<le> y \<Longrightarrow> float32 x \<le> float32 y"
  by (simp add: float32_def fl_mono)

lemma float32_idem: "float32 (float32 x) = float32 x"
  by (simp add: float32_def fl_idem)

lemma float32_nonneg: "0 \<le> x \<Longrightarrow> 0 \<le> float32 x"
  by (simp add: float32_def fl_nonneg)

lemma float64_nonneg: "0 \<le> x \<Longrightarrow> 0 \<le> float64 x"
  by (simp add: float64_def fl_nonneg)

lemma stdv_of_nonneg: "0 \<le> stdv_of n"
  unfolding stdv_of_def by (intro float64_nonneg divide_nonneg_nonneg) (simp_all add: float64_nonneg)

lemma float64_1: "float64 1 = 1"
  unfolding float64_def
  by (subst fl_eval [where k = 0]) (simp_all add: pow2_def round_half_even_def)

lemma float64_4: "float64 4 = 4"
  unfolding float64_def
  by (subst fl_eval [where k = 2]) (simp_all add: pow2_def round_half_even_def)

lemma float64_2: "float64 2 = 2"
  unfolding float64_def
  by (subst fl_eval [where k = 1]) (simp_all add: pow2_def round_half_even_def)

lemma float64_half: "float64 (1 / 2) = 1 / 2"
  unfolding float64_def
  by (subst fl_eval [where k = "- 1"]) (simp_all add: pow2_def round_half_even_def)

lemma float32_1: "float32 1 = 1"
  unfolding float32_def
  by (subst fl_eval [where k = 0]) (simp_all add: pow2_def round_half_even_def)

lemma float32_half: "float32 (1 / 2) = 1 / 2"
  unfolding float32_def
  by (subst fl_eval [where k = "- 1"]) (simp_all add: pow2_def round_half_even_def)

lemma float32_quarter: "float32 (1 / 4) = 1 / 4"
  unfolding float32_def
  by (subst fl_eval [where k = "- 2"]) (simp_all add: pow2_def round_half_even_def)

lemma sqrt4: "sqrt 4 = 2"
proof -
  have "sqrt (2\<^sup>2) = 2" by (simp del: power2_eq_square)
  then show ?thesis by simp
qed

lemma stdv_of_1: "stdv_of (Suc 0) = 1"
  by (simp add: stdv_of_def float64_1)

lemma stdv_of_4: "stdv_of 4 = 1 / 2"
  by (simp add: stdv_of_def float64_4 sqrt4 float64_2 float64_half)

lemma stdv_of_9: "stdv_of 9 = 6004799503160661 / 18014398509481984"
  by (simp add: stdv_of_def float64_9 sqrt9 float64_3 float64_third)

lemma float32_stdv_of_9: "float32 (stdv_of 9) = 11184811 / 33554432"
  by (simp add: stdv_of_9 float32_third)

section \<open>Message passing sums over the in-neighbours\<close>

lemma length_scatter_add: "length (scatter_add ms acc) = length acc"
  by (induction ms acc rule: scatter_add.induct) simp_all

lemma nth_scatter_add:
  "v < length acc \<Longrightarrow>
   scatter_add ms acc ! v = foldl vadd (acc ! v) (map snd (filter (\<lambda>m. fst m = v) ms))"
proof (induction ms acc rule: scatter_add.induct)
  case (1 acc)
  then show ?case by simp
next
  case (2 v' m ms acc)
  then show ?case by (simp add: nth_list_update)
qed

lemma length_vadd: "length (vadd x y) = min (length x) (length y)"
  by (simp add: vadd_def)

lemma nth_vadd: "j < length x \<Longrightarrow> j < length y \<Longrightarrow> vadd x y ! j = x ! j + y ! j"
  by (simp add: vadd_def)

lemma foldl_vadd_entries:
  "length a = w \<Longrightarrow> list_all (\<lambda>x. length x = w) xs \<Longrightarrow>
   foldl vadd a xs = map (\<lambda>j. a ! j + sum_list (map (\<lambda>x. x ! j) xs)) [0..<w]"
proof (induction xs arbitrary: a)
  case Nil
  then show ?case by (auto intro: nth_equalityI)
next
  case (Cons x xs)
  have len: "length (vadd a x) = w" using Cons.prems by (simp add: length_vadd)
  have "foldl vadd (vadd a x) xs =
        map (\<lambda>j. vadd a x ! j + sum_list (map (\<lambda>x. x ! j) xs)) [0..<w]"
    using Cons.IH [OF len] Cons.prems by simp
  also have "\<dots> = map (\<lambda>j. a ! j + sum_list (map (\<lambda>x. x ! j) (x # xs))) [0..<w]"
    using Cons.prems by (simp add: nth_vadd)
  finally show ?case by simp
qed

lemma messages_to:
  "map snd (filter (\<lambda>m. fst m = v) (copy_src t es)) =
   map (\<lambda>u. rows t ! u) (map fst (filter (\<lambda>e. snd e = v) es))"
  by (induction es) (auto simp: copy_src_def)

lemma row_copy_src_sum:
  assumes "wf_tensor t" "nrows t = number_of_nodes g" "wf_edges g" "v < number_of_nodes g"
  shows "rows (copy_src_sum g t) ! v =
         map (\<lambda>j. sum_list (map (\<lambda>u. rows t ! u ! j) (innbs g v))) [0..<ncols t]"
proof -
  have in_range: "list_all (\<lambda>u. u < number_of_nodes g) (innbs g v)"
    using assms(3) by (auto simp: wf_edges_def innbs_def list_all_iff)
  have lens: "list_all (\<lambda>x. length x = ncols t) (map (\<lambda>u. rows t ! u) (innbs g v))"
    using in_range assms(1,2) by (auto simp: list_all_iff wf_tensor_def nrows_def)
  have "rows (copy_src_sum g t) ! v =
        foldl vadd (replicate (ncols t) 0) (map (\<lambda>u. rows t ! u) (innbs g v))"
    using assms(4) by (simp add: copy_src_sum_def nth_scatter_add messages_to innbs_def)
  also have "\<dots> = map (\<lambda>j. replicate (ncols t) 0 ! j
                       + sum_list (map (\<lambda>x. x ! j) (map (\<lambda>u. rows t ! u) (innbs g v)))) [0..<ncols t]"
    by (rule foldl_vadd_entries) (simp_all add: lens)
  also have "\<dots> = map (\<lambda>j. sum_list (map (\<lambda>u. rows t ! u ! j) (innbs g v))) [0..<ncols t]"
    by (simp add: comp_def)
  finally show ?thesis .
qed


lemma ndata_get_Inr:
  "ndata_get hp g k = Inr t \<Longrightarrow> \<exists>a. ndata g k = Some a \<and> a < length hp \<and> hp ! a = t"
  by (auto simp: ndata_get_def ndata_ref_def split: option.splits if_splits)

text \<open>
  C2. After \<^verbatim>\<open>update_all(fn.copy_src(src='h', out='m'), fn.sum(msg='m', out='h'))\<close> the
  field \<open>h\<close> of every node \<open>v\<close> is the sum of the feature rows that the field \<open>h\<close> held
  before the call at the in-neighbours of \<open>v\<close> (one summand per incoming edge), and it is
  the zero row when \<open>v\<close> has no in-neighbour.
\<close>

theorem update_all_sums_in_neighbours:
  assumes "ndata_get hp g ''h'' = Inr t" "wf_tensor t" "nrows t = number_of_nodes g"
    "wf_edges g" "v < number_of_nodes g"
  shows "\<exists>hp' g' t'. update_all hp g ''h'' ''h'' = Inr (hp', g') \<and>
           ndata_get hp' g' ''h'' = Inr t' \<and>
           nrows t' = number_of_nodes g \<and> ncols t' = ncols t \<and>
           rows t' ! v = map (\<lambda>j. sum_list (map (\<lambda>u. rows t ! u ! j) (innbs g v))) [0..<ncols t] \<and>
           (innbs g v = [] \<longrightarrow> rows t' ! v = replicate (ncols t) 0)"
proof -
  let ?t' = "copy_src_sum g t"
  have row: "rows ?t' ! v = map (\<lambda>j. sum_list (map (\<lambda>u. rows t ! u ! j) (innbs g v))) [0..<ncols t]"
    using assms(2-5) by (rule row_copy_src_sum)
  have zero: "innbs g v = [] \<longrightarrow> rows ?t' ! v = replicate (ncols t) 0"
    by (simp add: row map_replicate_const)
  have shape: "nrows ?t' = number_of_nodes g" "ncols ?t' = ncols t"
    by (simp_all add: copy_src_sum_def nrows_def length_scatter_add)
  have upd: "update_all hp g ''h'' ''h'' =
      Inr (hp @ [?t'], g\<lparr>ndata := (ndata g)(''h'' \<mapsto> length hp)\<rparr>)"
    using assms(1) by (simp add: update_all_def)
  have get: "ndata_get (hp @ [?t']) (g\<lparr>ndata := (ndata g)(''h'' \<mapsto> length hp)\<rparr>) ''h'' = Inr ?t'"
    by (simp add: ndata_get_def ndata_ref_def)
  show ?thesis
    using upd get row zero shape by blast
qed

theorem update_all_sums_in_neighbours_witness:
  "\<exists>hp' g' t'. update_all ex_heap_h ex_graph_h ''h'' ''h'' = Inr (hp', g') \<and>
     ndata_get hp' g' ''h'' = Inr t' \<and> rows t' ! 1 = [16] \<and> rows t' ! 0 = [0]"
proof -
  have hyps: "ndata_get ex_heap_h ex_graph_h ''h'' = Inr ex_h" "wf_tensor ex_h"
    "nrows ex_h = number_of_nodes ex_graph_h" "wf_edges ex_graph_h"
    by (simp_all add: ndata_get_def ndata_ref_def ex_heap_h_def ex_graph_h_def ex_graph_def
        ex_h_def wf_tensor_def nrows_def wf_edges_def)
  have nb: "innbs ex_graph_h (Suc 0) = [0, 2]" "innbs ex_graph_h 0 = []"
    by (simp_all add: innbs_def ex_graph_h_def ex_graph_def)
  have lt: "(1::nat) < number_of_nodes ex_graph_h" "(0::nat) < number_of_nodes ex_graph_h"
    by (simp_all add: ex_graph_h_def ex_graph_def)
  from update_all_sums_in_neighbours [OF hyps lt(1)] update_all_sums_in_neighbours [OF hyps lt(2)]
  show ?thesis
    by (auto simp: nb ex_h_def)
qed

section \<open>GCNLayer.forward\<close>

lemma copy_src_sum_ndata [simp]: "copy_src_sum (g\<lparr>ndata := nd\<rparr>) t = copy_src_sum g t"
  by (simp add: copy_src_sum_def)

text \<open>
  The store operations of \<^verbatim>\<open>forward\<close> (write \<open>h\<close>, \<^verbatim>\<open>update_all\<close>, \<^verbatim>\<open>pop\<close>) amount to
  one aggregation of the tensor, two new tensors on the heap, and the removal of the key
  \<open>h\<close>.
\<close>

lemma store_block:
  assumes n: "nrows h2 = number_of_nodes g"
  shows "(case ndata_set hp g ''h'' h2 of Inl e \<Rightarrow> (Inl e, hp, g) | Inr (hp1, g1) \<Rightarrow>
          case update_all hp1 g1 ''h'' ''h'' of Inl e \<Rightarrow> (Inl e, hp1, g1) | Inr (hp2, g2) \<Rightarrow>
          case ndata_pop hp2 g2 ''h'' of Inl e \<Rightarrow> (Inl e, hp2, g2) | Inr (h3, g3) \<Rightarrow> K h3 hp2 g3)
         = K (copy_src_sum g h2) (hp @ [h2, copy_src_sum g h2])
             (g\<lparr>ndata := (ndata g)(''h'' := None)\<rparr>)"
proof -
  let ?g1 = "g\<lparr>ndata := (ndata g)(''h'' \<mapsto> length hp)\<rparr>"
  let ?g2 = "?g1\<lparr>ndata := (ndata ?g1)(''h'' \<mapsto> length (hp @ [h2]))\<rparr>"
  have 1: "ndata_set hp g ''h'' h2 = Inr (hp @ [h2], ?g1)"
    using n by (simp add: ndata_set_def)
  have 2: "update_all (hp @ [h2]) ?g1 ''h'' ''h'' = Inr ((hp @ [h2]) @ [copy_src_sum g h2], ?g2)"
    by (simp add: update_all_def ndata_get_def ndata_ref_def)
  have 3: "ndata_pop ((hp @ [h2]) @ [copy_src_sum g h2]) ?g2 ''h'' =
      Inr (copy_src_sum g h2, g\<lparr>ndata := (ndata g)(''h'' := None)\<rparr>)"
    by (simp add: ndata_pop_def ndata_ref_def nth_append)
  show ?thesis
    by (simp only: 1 2 3 sum.case prod.case) simp
qed

lemma ndata_get_after_block:
  assumes "ndata_get hp g ''norm'' = Inr nrm"
  shows "ndata_get (hp @ ts) (g\<lparr>ndata := (ndata g)(''h'' := None)\<rparr>) ''norm'' = Inr nrm"
  using ndata_get_Inr [OF assms] by (auto simp: ndata_get_def ndata_ref_def nth_append)

lemma GCNLayer_forward_pure:
  "GCNLayer_forward dropout_fn self hp g h =
     (case torch_mm (case dropout self of Some p \<Rightarrow> dropout_fn p h | None \<Rightarrow> h) (weight self) of
        Inl e \<Rightarrow> (Inl e, hp, g)
      | Inr h1 \<Rightarrow>
     (case ndata_get hp g ''norm'' of
        Inl e \<Rightarrow> (Inl e, hp, g)
      | Inr nrm \<Rightarrow>
     (case tensor_mul h1 nrm of
        Inl e \<Rightarrow> (Inl e, hp, g)
      | Inr h2 \<Rightarrow>
        if nrows h2 \<noteq> number_of_nodes g then (Inl DGLError, hp, g)
        else
     (case tensor_mul (copy_src_sum g h2) nrm of
        Inl e \<Rightarrow> (Inl e, hp @ [h2, copy_src_sum g h2], g\<lparr>ndata := (ndata g)(''h'' := None)\<rparr>)
      | Inr h4 \<Rightarrow>
     (case (case bias self of Some b \<Rightarrow> tensor_add h4 (as_row b) | None \<Rightarrow> Inr h4) of
        Inl e \<Rightarrow> (Inl e, hp @ [h2, copy_src_sum g h2], g\<lparr>ndata := (ndata g)(''h'' := None)\<rparr>)
      | Inr h5 \<Rightarrow>
          (case activation self of
             Some f \<Rightarrow> (f h5, hp @ [h2, copy_src_sum g h2], g\<lparr>ndata := (ndata g)(''h'' := None)\<rparr>)
           | None \<Rightarrow> (Inr h5, hp @ [h2, copy_src_sum g h2],
                      g\<lparr>ndata := (ndata g)(''h'' := None)\<rparr>)))))))"
proof (cases "torch_mm (case dropout self of Some p \<Rightarrow> dropout_fn p h | None \<Rightarrow> h) (weight self)")
  case (Inl e)
  then show ?thesis by (simp add: GCNLayer_forward_def)
next
  case h1: (Inr h1)
  show ?thesis
  proof (cases "ndata_get hp g ''norm''")
    case (Inl e)
    then show ?thesis using h1 by (simp add: GCNLayer_forward_def)
  next
    case nrm: (Inr nrm)
    show ?thesis
    proof (cases "tensor_mul h1 nrm")
      case (Inl e)
      then show ?thesis using h1 nrm by (simp add: GCNLayer_forward_def)
    next
      case h2: (Inr h2)
      show ?thesis
      proof (cases "nrows h2 = number_of_nodes g")
        case False
        then have "ndata_set hp g ''h'' h2 = Inl DGLError" by (simp add: ndata_set_def)
        then show ?thesis using h1 nrm h2 False by (simp add: GCNLayer_forward_def)
      next
        case True
        note blk = store_block [OF True, of hp]
        note get = ndata_get_after_block [OF nrm, of "[h2, copy_src_sum g h2]"]
        show ?thesis
          unfolding GCNLayer_forward_def Let_def
          by (simp only: h1 nrm h2 sum.case blk get True) (simp split: sum.splits option.splits)
      qed
    qed
  qed
qed

lemmas tensor_eval =
  torch_mm_def tensor_mul_def tensor_add_def elementwise_def broadcast_dim_def bget_def
  nrows_def column_def dot_def as_row_def copy_src_sum_def copy_src_def vadd_def
  ndata_get_def ndata_ref_def

lemma ex_forward:
  "GCNLayer_forward eval_dropout ex_layer ex_heap ex_graph ex_features =
     (Inr ex_output,
      ex_heap @ [\<lparr>ncols = 2, rows = [[1, 2], [6, 8], [15, 18]]\<rparr>,
                 \<lparr>ncols = 2, rows = [[0, 0], [16, 20], [6, 8]]\<rparr>],
      ex_graph\<lparr>ndata := (ndata ex_graph)(''h'' := None)\<rparr>)"
  by (simp add: GCNLayer_forward_pure ex_layer_def ex_graph_def ex_heap_def ex_norm_def
      ex_features_def ex_output_def tensor_eval upt_conv_Cons eval_nat_numeral)

lemma ex_forward_h:
  "GCNLayer_forward eval_dropout ex_layer ex_heap_h ex_graph_h ex_features =
     (Inr ex_output,
      ex_heap_h @ [\<lparr>ncols = 2, rows = [[1, 2], [6, 8], [15, 18]]\<rparr>,
                   \<lparr>ncols = 2, rows = [[0, 0], [16, 20], [6, 8]]\<rparr>],
      ex_graph_h\<lparr>ndata := (ndata ex_graph_h)(''h'' := None)\<rparr>)"
  by (simp add: GCNLayer_forward_pure ex_layer_def ex_graph_h_def ex_graph_def ex_heap_h_def
      ex_norm_def ex_h_def ex_features_def ex_output_def tensor_eval upt_conv_Cons eval_nat_numeral)

text \<open>
  C1. For every input tensor \<open>h\<close> the value of \<^verbatim>\<open>GCNLayer.forward\<close> is the composition,
  in this order, of: dropout (only when a nonzero dropout was configured), the linear
  projection \<open>h @ weight\<close>, the elementwise product with the node data \<open>norm\<close>, the
  message-passing sum over the neighbours, a second elementwise product with \<open>norm\<close>, the
  addition of the bias (only when there is one) and the activation (only when one was
  given); a failure of a step is the failure of the call.
\<close>

theorem GCNLayer_forward_is_composition:
  "fst (GCNLayer_forward dropout_fn self hp g h) = GCNLayer_composition dropout_fn self hp g h"
  by (simp add: GCNLayer_forward_pure GCNLayer_composition_def step_dropout_def step_linear_def
      step_norm_def step_message_sum_def step_bias_def step_activation_def bind_err_def
      split: sum.splits option.splits)

text \<open>
  C7, as the code has it. When \<^verbatim>\<open>GCNLayer.forward\<close> returns, the graph is the graph of
  before the call with the key \<open>h\<close> removed from its node data: the node data has no key
  \<open>h\<close>, and every other key, \<open>norm\<close> among them, holds the tensor it held; the tensors
  that were on the heap before the call are unchanged. A field \<open>h\<close> that was there
  before the call is overwritten and removed, not restored.
\<close>

theorem GCNLayer_forward_frame:
  assumes "GCNLayer_forward dropout_fn self hp g h = (Inr out, hp', g')"
  shows "g' = g\<lparr>ndata := (ndata g)(''h'' := None)\<rparr> \<and> ndata g' ''h'' = None \<and>
         ndata g' ''norm'' = ndata g ''norm'' \<and>
         ndata_get hp' g' ''norm'' = ndata_get hp g ''norm'' \<and>
         take (length hp) hp' = hp"
proof -
  obtain h1 nrm h2 where nrm: "ndata_get hp g ''norm'' = Inr nrm"
    and st: "g' = g\<lparr>ndata := (ndata g)(''h'' := None)\<rparr>" "hp' = hp @ [h2, copy_src_sum g h2]"
    using assms unfolding GCNLayer_forward_pure
    by (auto split: sum.splits if_splits option.splits)
  have "ndata_get hp' g' ''norm'' = ndata_get hp g ''norm''"
    using ndata_get_after_block [OF nrm] nrm st by simp
  then show ?thesis using st by simp
qed

theorem GCNLayer_forward_frame_witness:
  "fst (GCNLayer_forward eval_dropout ex_layer ex_heap ex_graph ex_features) = Inr ex_output \<and>
   snd (snd (GCNLayer_forward eval_dropout ex_layer ex_heap ex_graph ex_features)) =
     ex_graph\<lparr>ndata := (ndata ex_graph)(''h'' := None)\<rparr> \<and>
   ndata (ex_graph\<lparr>ndata := (ndata ex_graph)(''h'' := None)\<rparr>) ''h'' = None \<and>
   ndata (ex_graph\<lparr>ndata := (ndata ex_graph)(''h'' := None)\<rparr>) ''norm'' = ndata ex_graph ''norm'' \<and>
   take (length ex_heap) (fst (snd (GCNLayer_forward eval_dropout ex_layer ex_heap ex_graph ex_features)))
     = ex_heap"
  using GCNLayer_forward_frame [OF ex_forward] ex_forward by simp

text \<open>
  The claim C7 as it is written (the call leaves the store as it found it with respect
  to the key \<open>h\<close>) fails on a graph that holds a field \<open>h\<close> before the call.
\<close>

theorem GCNLayer_forward_frame_counterexample:
  "fst (GCNLayer_forward eval_dropout ex_layer ex_heap_h ex_graph_h ex_features) = Inr ex_output \<and>
   ndata (snd (snd (GCNLayer_forward eval_dropout ex_layer ex_heap_h ex_graph_h ex_features))) ''h''
     \<noteq> ndata ex_graph_h ''h''"
  by (simp add: ex_forward_h) (simp add: ex_graph_h_def)

section \<open>The offloaded aggregation and the built-in message passing\<close>


lemma broadcast_dim_same [simp]: "broadcast_dim n n = Some n"
  by (simp add: broadcast_dim_def)







lemma length_vmul [simp]: "length (vmul w x y) = w"
  by (simp add: vmul_def)









section \<open>Parameter initialisation stays in the rounded range\<close>

lemma uniform_within:
  assumes "0 \<le> s" "0 \<le> u" "u < 1"
  shows "in_interval (float32 s) (float32 (float32 (- s) + (float32 s - float32 (- s)) * u))"
proof -
  define T where "T = float32 s"
  have T: "0 \<le> T" using assms(1) by (simp add: T_def float32_nonneg)
  have "0 \<le> T * u" using T assms by simp
  moreover have "T * u \<le> T * 1" using T assms by (intro mult_left_mono) simp_all
  ultimately have lo: "- T \<le> - T + (T - - T) * u" and hi: "- T + (T - - T) * u \<le> T"
    by (simp_all add: algebra_simps)
  have "float32 (- T) \<le> float32 (- T + (T - - T) * u)" using lo by (rule float32_mono)
  moreover have "float32 (- T + (T - - T) * u) \<le> float32 T" using hi by (rule float32_mono)
  moreover have "float32 T = T" by (simp add: T_def float32_idem)
  moreover have "float32 (- T) = - T" by (simp add: T_def float32_minus float32_idem)
  ultimately show ?thesis by (simp add: in_interval_def float32_minus T_def)
qed

lemma uniform_fill_within:
  assumes "unit_draws r" "0 \<le> s"
  shows "list_all (list_all (in_interval (float32 s))) (rows (fst (uniform_fill (- s) s t r)))"
  using assms by (auto simp: uniform_fill_def list_all_iff unit_draws_def intro!: uniform_within)

lemma uniform_fill_rng:
  assumes "unit_draws r"
  shows "unit_draws (snd (uniform_fill lo hi t r))"
  using assms by (simp add: uniform_fill_def unit_draws_def)

lemma uniform_fill1_within:
  assumes "unit_draws r" "0 \<le> s"
  shows "list_all (in_interval (float32 s)) (fst (uniform_fill1 (- s) s b r))"
  using assms by (auto simp: uniform_fill1_def list_all_iff unit_draws_def intro!: uniform_within)

lemma GCNLayer_reset_parameters_within:
  assumes "unit_draws r" "GCNLayer_reset_parameters self r = Inr (self', r')"
  shows "params_within (float32 (stdv_of (ncols (weight self)))) self'"
proof -
  let ?s = "stdv_of (ncols (weight self))"
  have s: "0 \<le> ?s" by (rule stdv_of_nonneg)
  obtain w r1 where wr: "uniform_fill (- ?s) ?s (weight self) r = (w, r1)"
    by (cases "uniform_fill (- ?s) ?s (weight self) r")
  have w: "list_all (list_all (in_interval (float32 ?s))) (rows w)"
    using uniform_fill_within [OF assms(1) s, of "weight self"] by (simp add: wr)
  have r1: "unit_draws r1"
    using uniform_fill_rng [OF assms(1), of "- ?s" ?s "weight self"] by (simp add: wr)
  have nz: "ncols (weight self) \<noteq> 0"
    using assms(2) by (auto simp: GCNLayer_reset_parameters_def split: if_splits)
  show ?thesis
  proof (cases "bias self")
    case None
    then have "self' = self\<lparr>weight := w\<rparr>"
      using assms(2) nz wr by (simp add: GCNLayer_reset_parameters_def)
    then show ?thesis using w None by (simp add: params_within_def)
  next
    case (Some b0)
    obtain b' r2 where br: "uniform_fill1 (- ?s) ?s b0 r1 = (b', r2)"
      by (cases "uniform_fill1 (- ?s) ?s b0 r1")
    have b: "list_all (in_interval (float32 ?s)) b'"
      using uniform_fill1_within [OF r1 s, of b0] by (simp add: br)
    have "self' = self\<lparr>weight := w, bias := Some b'\<rparr>"
      using assms(2) nz wr br Some by (simp add: GCNLayer_reset_parameters_def)
    then show ?thesis using w b by (simp add: params_within_def)
  qed
qed

lemma EglGCNLayer_reset_parameters_within:
  assumes "unit_draws r" "EglGCNLayer_reset_parameters self r = Inr (self', r')"
  shows "params_within (float32 (stdv_of (ncols (weight self)))) self'"
proof -
  let ?s = "stdv_of (ncols (weight self))"
  have s: "0 \<le> ?s" by (rule stdv_of_nonneg)
  obtain w r1 where wr: "uniform_fill (- ?s) ?s (weight self) r = (w, r1)"
    by (cases "uniform_fill (- ?s) ?s (weight self) r")
  have w: "list_all (list_all (in_interval (float32 ?s))) (rows w)"
    using uniform_fill_within [OF assms(1) s, of "weight self"] by (simp add: wr)
  have r1: "unit_draws r1"
    using uniform_fill_rng [OF assms(1), of "- ?s" ?s "weight self"] by (simp add: wr)
  have nz: "ncols (weight self) \<noteq> 0"
    using assms(2) by (auto simp: EglGCNLayer_reset_parameters_def split: if_splits)
  show ?thesis
  proof (cases "bias self")
    case None
    then have "self' = self\<lparr>weight := w\<rparr>"
      using assms(2) nz wr by (simp add: EglGCNLayer_reset_parameters_def)
    then show ?thesis using w None by (simp add: params_within_def)
  next
    case (Some b0)
    obtain b' r2 where br: "uniform_fill1 (- ?s) ?s b0 r1 = (b', r2)"
      by (cases "uniform_fill1 (- ?s) ?s b0 r1")
    have b: "list_all (in_interval (float32 ?s)) b'"
      using uniform_fill1_within [OF r1 s, of b0] by (simp add: br)
    have "self' = self\<lparr>weight := w, bias := Some b'\<rparr>"
      using assms(2) nz wr br Some by (simp add: EglGCNLayer_reset_parameters_def)
    then show ?thesis using w b by (simp add: params_within_def)
  qed
qed

lemma GCNLayer_reset_parameters_fields:
  assumes "GCNLayer_reset_parameters self r = Inr (self', r')"
  shows "activation self' = activation self" "dropout self' = dropout self"
    "ncols (weight self') = ncols (weight self)" "nrows (weight self') = nrows (weight self)"
    "0 < ncols (weight self)"
  using assms
  by (auto simp: GCNLayer_reset_parameters_def uniform_fill_def uniform_fill1_def nrows_def
      Let_def split: if_splits option.splits)

lemma EglGCNLayer_reset_parameters_fields:
  assumes "EglGCNLayer_reset_parameters self r = Inr (self', r')"
  shows "activation self' = activation self" "dropout self' = dropout self"
    "ncols (weight self') = ncols (weight self)" "nrows (weight self') = nrows (weight self)"
    "0 < ncols (weight self)" "self_norm self' = self_norm self"
  using assms
  by (auto simp: EglGCNLayer_reset_parameters_def uniform_fill_def uniform_fill1_def nrows_def
      Let_def split: if_splits option.splits)

lemma GCNLayer_init_reset:
  assumes "GCNLayer_init cap in_feats out_feats act p b r = Inr (self, r')"
  shows "\<exists>self0. GCNLayer_reset_parameters self0 r = Inr (self, r') \<and>
           ncols (weight self0) = nat out_feats \<and> nrows (weight self0) = nat in_feats \<and>
           0 \<le> in_feats \<and> 0 \<le> out_feats \<and> activation self0 = act \<and>
           dropout self0 = (if p = 0 then None else Some p)"
  using assms
  by (auto simp: GCNLayer_init_def torch_Tensor_def torch_Tensor1_def nn_Dropout_def nrows_def
      split: if_splits sum.splits)

lemma EglGCNLayer_init_reset:
  assumes "EglGCNLayer_init cap hp g in_feats out_feats act p b r = Inr (self, r')"
  shows "\<exists>self0. EglGCNLayer_reset_parameters self0 r = Inr (self, r') \<and>
           ncols (weight self0) = nat out_feats \<and> nrows (weight self0) = nat in_feats \<and>
           0 \<le> in_feats \<and> 0 \<le> out_feats \<and> activation self0 = act \<and>
           dropout self0 = (if p = 0 then None else Some p) \<and>
           ndata g ''norm'' = Some (self_norm self0) \<and> self_norm self0 < length hp"
  using assms
  by (auto simp: EglGCNLayer_init_def torch_Tensor_def torch_Tensor1_def nn_Dropout_def nrows_def
      ndata_ref_def split: if_splits sum.splits option.splits)

lemma GCNLayer_init_fields:
  assumes "GCNLayer_init cap in_feats out_feats act p b r = Inr (self, r')"
  shows "activation self = act" "dropout self = (if p = 0 then None else Some p)"
    "ncols (weight self) = nat out_feats" "nrows (weight self) = nat in_feats"
    "0 \<le> in_feats" "0 < out_feats"
proof -
  obtain self0 where *: "GCNLayer_reset_parameters self0 r = Inr (self, r')"
    "ncols (weight self0) = nat out_feats" "nrows (weight self0) = nat in_feats"
    "0 \<le> in_feats" "0 \<le> out_feats" "activation self0 = act"
    "dropout self0 = (if p = 0 then None else Some p)"
    using GCNLayer_init_reset [OF assms] by blast
  note f = GCNLayer_reset_parameters_fields [OF *(1)]
  show "activation self = act" "dropout self = (if p = 0 then None else Some p)"
    "ncols (weight self) = nat out_feats" "nrows (weight self) = nat in_feats"
    "0 \<le> in_feats" "0 < out_feats"
    using f * by simp_all
qed

lemma EglGCNLayer_init_fields:
  assumes "EglGCNLayer_init cap hp g in_feats out_feats act p b r = Inr (self, r')"
  shows "activation self = act" "dropout self = (if p = 0 then None else Some p)"
    "ncols (weight self) = nat out_feats" "nrows (weight self) = nat in_feats"
    "0 \<le> in_feats" "0 < out_feats" "ndata g ''norm'' = Some (self_norm self)"
    "self_norm self < length hp"
proof -
  obtain self0 where *: "EglGCNLayer_reset_parameters self0 r = Inr (self, r')"
    "ncols (weight self0) = nat out_feats" "nrows (weight self0) = nat in_feats"
    "0 \<le> in_feats" "0 \<le> out_feats" "activation self0 = act"
    "dropout self0 = (if p = 0 then None else Some p)"
    "ndata g ''norm'' = Some (self_norm self0)" "self_norm self0 < length hp"
    using EglGCNLayer_init_reset [OF assms] by blast
  note f = EglGCNLayer_reset_parameters_fields [OF *(1)]
  show "activation self = act" "dropout self = (if p = 0 then None else Some p)"
    "ncols (weight self) = nat out_feats" "nrows (weight self) = nat in_feats"
    "0 \<le> in_feats" "0 < out_feats" "ndata g ''norm'' = Some (self_norm self)"
    "self_norm self < length hp"
    using f * by simp_all
qed

lemma GCNLayer_init_within:
  assumes "unit_draws r" "GCNLayer_init cap in_feats out_feats act p b r = Inr (self, r')"
  shows "params_within (float32 (stdv_of (nat out_feats))) self"
proof -
  obtain self0 where *: "GCNLayer_reset_parameters self0 r = Inr (self, r')"
    "ncols (weight self0) = nat out_feats"
    using GCNLayer_init_reset [OF assms(2)] by blast
  show ?thesis
    using GCNLayer_reset_parameters_within [OF assms(1) *(1)] *(2) by simp
qed

lemma EglGCNLayer_init_within:
  assumes "unit_draws r" "EglGCNLayer_init cap hp g in_feats out_feats act p b r = Inr (self, r')"
  shows "params_within (float32 (stdv_of (nat out_feats))) self"
proof -
  obtain self0 where *: "EglGCNLayer_reset_parameters self0 r = Inr (self, r')"
    "ncols (weight self0) = nat out_feats"
    using EglGCNLayer_init_reset [OF assms(2)] by blast
  show ?thesis
    using EglGCNLayer_reset_parameters_within [OF assms(1) *(1)] *(2) by simp
qed

lemma GCNLayer_init_success:
  assumes "layer_builds cap in_feats out_feats p"
  shows "\<exists>self r'. GCNLayer_init cap in_feats out_feats act p b r = Inr (self, r')"
  using assms
  by (auto simp: layer_builds_def dropout_ok_def GCNLayer_init_def torch_Tensor_def
      torch_Tensor1_def nn_Dropout_def GCNLayer_reset_parameters_def uniform_fill_def
      uniform_fill1_def Let_def)

lemma EglGCNLayer_init_success:
  assumes "ndata_ref hp g ''norm'' = Inr a" "layer_builds cap in_feats out_feats p"
  shows "\<exists>self r'. EglGCNLayer_init cap hp g in_feats out_feats act p b r = Inr (self, r')"
  using assms
  by (auto simp: layer_builds_def dropout_ok_def EglGCNLayer_init_def torch_Tensor_def
      torch_Tensor1_def nn_Dropout_def EglGCNLayer_reset_parameters_def uniform_fill_def
      uniform_fill1_def Let_def)

lemma unit_draws_ex_rng: "unit_draws ex_rng"
  by (simp add: unit_draws_def ex_rng_def)

lemma unit_draws_ex_rng0: "unit_draws ex_rng0"
  by (simp add: unit_draws_def ex_rng0_def)

lemma int64_ok_small [simp]: "int64_ok 0" "int64_ok 1" "int64_ok 2" "int64_ok 3" "int64_ok 4" "int64_ok 9"
  by (simp_all add: int64_ok_def)

lemma ex_init9:
  "map_sum id fst (GCNLayer_init 1000 1 9 None 0 True ex_rng0) = Inr ex_layer9"
  by (simp add: GCNLayer_init_def torch_Tensor_def torch_Tensor1_def
      GCNLayer_reset_parameters_def uniform_fill_def uniform_fill1_def Let_def nrows_def
      ex_rng0_def ex_layer9_def float32_minus float32_idem float32_stdv_of_9 map_replicate_const)

text \<open>
  C5, as the code has it. After \<^verbatim>\<open>reset_parameters\<close> (called by \<^verbatim>\<open>GCNLayer.__init__\<close>
  and by \<^verbatim>\<open>EglGCNLayer.__init__\<close>) every entry of the weight lies in the interval from
  \<open>- s\<close> to \<open>s\<close>, where \<open>s\<close> is the binary32 number nearest to \<open>stdv\<close>, the binary64
  value of \<^verbatim>\<open>1. / math.sqrt(self.weight.size(1))\<close>, and so does every entry of the bias
  when there is one; the draws of the random source are in the unit interval.
\<close>

theorem reset_parameters_uniform_range:
  assumes "unit_draws r"
  shows "(GCNLayer_reset_parameters self r = Inr (self', r1) \<longrightarrow>
            params_within (float32 (stdv_of (ncols (weight self)))) self') \<and>
         (EglGCNLayer_reset_parameters eself r = Inr (eself', r2) \<longrightarrow>
            params_within (float32 (stdv_of (ncols (weight eself)))) eself') \<and>
         (GCNLayer_init cap in_feats out_feats act p b r = Inr (layer, r3) \<longrightarrow>
            params_within (float32 (stdv_of (nat out_feats))) layer) \<and>
         (EglGCNLayer_init cap hp g in_feats out_feats act p b r = Inr (elayer, r4) \<longrightarrow>
            params_within (float32 (stdv_of (nat out_feats))) elayer)"
  using assms
  by (simp add: GCNLayer_reset_parameters_within EglGCNLayer_reset_parameters_within
      GCNLayer_init_within EglGCNLayer_init_within)

theorem reset_parameters_uniform_range_witness:
  "unit_draws ex_rng \<and>
   (\<exists>layer r'. GCNLayer_init 1000 1 4 None 0 True ex_rng = Inr (layer, r') \<and>
      params_within (1 / 2) layer \<and> ncols (weight layer) = 4 \<and> bias layer \<noteq> None)"
proof -
  have u: "unit_draws ex_rng" by (rule unit_draws_ex_rng)
  obtain layer r' where init: "GCNLayer_init 1000 1 4 None 0 True ex_rng = Inr (layer, r')"
    using GCNLayer_init_success [of 1000 1 4 0 None True ex_rng]
    by (auto simp: layer_builds_def dropout_ok_def)
  have "params_within (float32 (stdv_of (nat 4))) layer"
    using reset_parameters_uniform_range [OF u, of _ _ _ _ _ _ 1000 1 4 None 0 True layer r'] init
    by blast
  then have "params_within (1 / 2) layer" by (simp add: stdv_of_4 float32_half)
  moreover have "ncols (weight layer) = 4" using GCNLayer_init_fields(3) [OF init] by simp
  moreover have "bias layer \<noteq> None"
    using init
    by (auto simp: GCNLayer_init_def torch_Tensor_def torch_Tensor1_def
        GCNLayer_reset_parameters_def uniform_fill_def uniform_fill1_def Let_def
        split: if_splits)
  ultimately show ?thesis using u init by blast
qed

text \<open>
  The claim C5 as it is written (every entry lies between \<open>- stdv\<close> and \<open>stdv\<close> for
  \<open>stdv = 1 / sqrt (weight.size(1))\<close>) fails for a layer of width 9: the bound
  \<open>- stdv\<close> is rounded to binary32 before the tensor is filled, the binary32 number
  nearest to \<open>- 1/3\<close> is below \<open>- 1/3\<close>, and a draw of 0 gives an entry equal to that
  bound.
\<close>

theorem reset_parameters_uniform_range_counterexample:
  "map_sum id fst (GCNLayer_init 1000 1 9 None 0 True ex_rng0) = Inr ex_layer9 \<and>
   rows (weight ex_layer9) ! 0 ! 0 < - stdv_of 9 \<and>
   rows (weight ex_layer9) ! 0 ! 0 < - (1 / sqrt 9) \<and>
   \<not> params_within (stdv_of 9) ex_layer9 \<and>
   \<not> params_within (1 / sqrt 9) ex_layer9"
  by (simp add: ex_init9)
    (simp add: ex_layer9_def stdv_of_9 sqrt9 params_within_def in_interval_def list_all_iff)

end
